theory Spec2Isabelle
  imports Main "HOL-Library.Sublist"
begin

section \<open>Python values\<close>

text \<open>
  The server handles whatever \<^verbatim>\<open>response.json()\<close> returns: a dynamically typed JSON value.
  \<open>JNull\<close> is Python's \<^verbatim>\<open>None\<close>, a \<open>JObj\<close> is a \<^verbatim>\<open>dict\<close> in insertion order (its keys are
  distinct; \<open>map_of\<close> reads it). JSON numbers are modelled as integers. A \<^verbatim>\<open>str\<close> is a
  \<open>string\<close>, one \<open>char\<close> for each ASCII character; the characters beyond ASCII that occur in
  the templates are written as their UTF-8 bytes, and \<^verbatim>\<open>lower\<close> and \<^verbatim>\<open>title\<close> change ASCII
  letters only.
\<close>

datatype json =
    JNull
  | JBool bool
  | JInt int
  | JStr string
  | JList "json list"
  | JObj "(string \<times> json) list"

text \<open>The exceptions that the operations on such values raise.\<close>

datatype py_error = AttributeError | TypeError | IndexError | KeyError

text \<open>Sequencing of computations that may raise.\<close>

definition bind_e :: "py_error + 'a \<Rightarrow> ('a \<Rightarrow> py_error + 'b) \<Rightarrow> py_error + 'b" where
  "bind_e m f = (case m of Inl e \<Rightarrow> Inl e | Inr a \<Rightarrow> f a)"

text \<open>\<^verbatim>\<open>bool(v)\<close>, as in \<^verbatim>\<open>if data:\<close> and \<^verbatim>\<open>if not data:\<close>.\<close>

fun truthy :: "json \<Rightarrow> bool" where
  "truthy JNull = False"
| "truthy (JBool b) = b"
| "truthy (JInt n) = (n \<noteq> 0)"
| "truthy (JStr s) = (s \<noteq> [])"
| "truthy (JList xs) = (xs \<noteq> [])"
| "truthy (JObj d) = (d \<noteq> [])"

text \<open>\<^verbatim>\<open>v.get(k, default)\<close>: only a dict has the method.\<close>

fun py_get :: "json \<Rightarrow> string \<Rightarrow> json \<Rightarrow> py_error + json" where
  "py_get (JObj d) k dflt = Inr (case map_of d k of None \<Rightarrow> dflt | Some v \<Rightarrow> v)"
| "py_get _ k dflt = Inl AttributeError"

text \<open>
  Membership in a \<^verbatim>\<open>set\<close> hashes the value: lists and dicts are unhashable, and \<^verbatim>\<open>True\<close> and
  \<^verbatim>\<open>False\<close> are the same set elements as \<^verbatim>\<open>1\<close> and \<^verbatim>\<open>0\<close>.
\<close>

fun py_hash_key :: "json \<Rightarrow> py_error + json" where
  "py_hash_key (JList xs) = Inl TypeError"
| "py_hash_key (JObj d) = Inl TypeError"
| "py_hash_key (JBool b) = Inr (JInt (if b then 1 else 0))"
| "py_hash_key v = Inr v"

text \<open>Iteration (\<^verbatim>\<open>for x in v\<close>, \<^verbatim>\<open>list.extend(v)\<close>, \<^verbatim>\<open>enumerate(v)\<close>): a dict yields its keys.\<close>

fun py_iter :: "json \<Rightarrow> py_error + json list" where
  "py_iter (JList xs) = Inr xs"
| "py_iter (JObj d) = Inr (map (\<lambda>kv. JStr (fst kv)) d)"
| "py_iter (JStr s) = Inr (map (\<lambda>c. JStr [c]) s)"
| "py_iter _ = Inl TypeError"

text \<open>\<^verbatim>\<open>xs[:n]\<close> on a sequence; a negative \<open>n\<close> counts from the end.\<close>

definition slice_to :: "int \<Rightarrow> 'a list \<Rightarrow> 'a list" where
  "slice_to n xs = (if 0 \<le> n then take (nat n) xs else take (nat (int (length xs) + n)) xs)"

text \<open>\<^verbatim>\<open>v[:n]\<close> on a value (a dict cannot be sliced: \<^verbatim>\<open>TypeError\<close>, or \<^verbatim>\<open>KeyError\<close> from Python 3.12).\<close>

fun py_slice_to :: "json \<Rightarrow> int \<Rightarrow> py_error + json" where
  "py_slice_to (JList xs) n = Inr (JList (slice_to n xs))"
| "py_slice_to (JStr s) n = Inr (JStr (slice_to n s))"
| "py_slice_to _ n = Inl TypeError"

text \<open>\<^verbatim>\<open>v[0]\<close>: the keys of a parsed JSON object are strings, so no dict has the key \<open>0\<close>.\<close>

fun py_item0 :: "json \<Rightarrow> py_error + json" where
  "py_item0 (JList xs) = (case xs of [] \<Rightarrow> Inl IndexError | x # _ \<Rightarrow> Inr x)"
| "py_item0 (JStr s) = (case s of [] \<Rightarrow> Inl IndexError | c # _ \<Rightarrow> Inr (JStr [c]))"
| "py_item0 (JObj d) = Inl KeyError"
| "py_item0 _ = Inl TypeError"

text \<open>\<^verbatim>\<open>len(v)\<close>.\<close>

fun py_len :: "json \<Rightarrow> py_error + nat" where
  "py_len (JList xs) = Inr (length xs)"
| "py_len (JStr s) = Inr (length s)"
| "py_len (JObj d) = Inr (length d)"
| "py_len _ = Inl TypeError"

section \<open>Strings\<close>

definition nl :: string where
  "nl = [CHR 0x0A]"

definition digit_char :: "nat \<Rightarrow> char" where
  "digit_char d = ''0123456789'' ! d"

fun str_of_nat :: "nat \<Rightarrow> string" where
  "str_of_nat n =
     (if n < 10 then [digit_char n] else str_of_nat (n div 10) @ [digit_char (n mod 10)])"

declare str_of_nat.simps [simp del]

text \<open>\<^verbatim>\<open>str(i)\<close> of an \<^verbatim>\<open>int\<close>.\<close>

definition str_of_int :: "int \<Rightarrow> string" where
  "str_of_int i = (if i < 0 then ''-'' @ str_of_nat (nat (- i)) else str_of_nat (nat i))"

definition ascii_uppercase :: string where
  "ascii_uppercase = ''ABCDEFGHIJKLMNOPQRSTUVWXYZ''"

definition ascii_lowercase :: string where
  "ascii_lowercase = ''abcdefghijklmnopqrstuvwxyz''"

definition lower_char :: "char \<Rightarrow> char" where
  "lower_char c =
     (case map_of (zip ascii_uppercase ascii_lowercase) c of None \<Rightarrow> c | Some l \<Rightarrow> l)"

definition upper_char :: "char \<Rightarrow> char" where
  "upper_char c =
     (case map_of (zip ascii_lowercase ascii_uppercase) c of None \<Rightarrow> c | Some u \<Rightarrow> u)"

text \<open>\<^verbatim>\<open>s.lower()\<close>.\<close>

definition py_lower :: "string \<Rightarrow> string" where
  "py_lower s = map lower_char s"

text \<open>
  \<^verbatim>\<open>s.title()\<close>: a cased character is put in upper case when the character before it is
  not cased, and in lower case otherwise.
\<close>

fun title_from :: "bool \<Rightarrow> string \<Rightarrow> string" where
  "title_from previous_is_cased [] = []"
| "title_from previous_is_cased (c # cs) =
     (if c \<in> set ascii_lowercase
      then (if previous_is_cased then c else upper_char c) # title_from True cs
      else if c \<in> set ascii_uppercase
      then (if previous_is_cased then lower_char c else c) # title_from True cs
      else c # title_from False cs)"

definition py_title :: "string \<Rightarrow> string" where
  "py_title s = title_from False s"

text \<open>\<^verbatim>\<open>s.replace(' ', '%20')\<close>.\<close>

definition replace_spaces :: "string \<Rightarrow> string" where
  "replace_spaces s = concat (map (\<lambda>c. if c = CHR '' '' then ''%20'' else [c]) s)"

text \<open>\<^verbatim>\<open>s.strip()\<close>, for the ASCII white space.\<close>

definition is_space :: "char \<Rightarrow> bool" where
  "is_space c \<longleftrightarrow>
     c \<in> set [CHR 0x20, CHR 0x09, CHR 0x0A, CHR 0x0B, CHR 0x0C, CHR 0x0D,
               CHR 0x1C, CHR 0x1D, CHR 0x1E, CHR 0x1F]"

definition py_strip :: "string \<Rightarrow> string" where
  "py_strip s = rev (dropWhile is_space (rev (dropWhile is_space s)))"

text \<open>\<^verbatim>\<open>sep.join(xs)\<close>.\<close>

fun py_join :: "string \<Rightarrow> string list \<Rightarrow> string" where
  "py_join sep [] = []"
| "py_join sep [x] = x"
| "py_join sep (x # y # ys) = x @ sep @ py_join sep (y # ys)"

text \<open>
  \<^verbatim>\<open>repr(s)\<close> of a string: in single quotes, unless it holds a single quote and no double
  quote; the quote, the backslash and the control characters are escaped.
\<close>

definition hex_digit :: "nat \<Rightarrow> char" where
  "hex_digit d = ''0123456789abcdef'' ! d"

definition repr_char :: "char \<Rightarrow> char \<Rightarrow> string" where
  "repr_char quote c =
     (if c = quote \<or> c = CHR 0x5C then [CHR 0x5C, c]
      else if c = CHR 0x09 then [CHR 0x5C, CHR ''t'']
      else if c = CHR 0x0A then [CHR 0x5C, CHR ''n'']
      else if c = CHR 0x0D then [CHR 0x5C, CHR ''r'']
      else if (of_char c :: nat) < 32 \<or> (of_char c :: nat) = 127
      then [CHR 0x5C, CHR ''x'', hex_digit ((of_char c :: nat) div 16),
            hex_digit ((of_char c :: nat) mod 16)]
      else [c])"

definition py_repr_str :: "string \<Rightarrow> string" where
  "py_repr_str s =
     (let quote = (if CHR 0x27 \<in> set s \<and> CHR 0x22 \<notin> set s then CHR 0x22 else CHR 0x27)
      in quote # concat (map (repr_char quote) s) @ [quote])"

fun py_repr :: "json \<Rightarrow> string" where
  "py_repr JNull = ''None''"
| "py_repr (JBool b) = (if b then ''True'' else ''False'')"
| "py_repr (JInt i) = str_of_int i"
| "py_repr (JStr s) = py_repr_str s"
| "py_repr (JList xs) = ''['' @ py_join '', '' (map py_repr xs) @ '']''"
| "py_repr (JObj d) =
     ''{'' @ py_join '', '' (map (\<lambda>kv. py_repr_str (fst kv) @ '': '' @ py_repr (snd kv)) d) @ ''}''"

text \<open>\<^verbatim>\<open>str(v)\<close>, which an f-string applies to each value it interpolates.\<close>

fun py_str :: "json \<Rightarrow> string" where
  "py_str (JStr s) = s"
| "py_str v = py_repr v"

text \<open>The characters beyond ASCII of the templates, in UTF-8.\<close>

definition cross_mark :: string where  \<comment> \<open>U+274C\<close>
  "cross_mark = [CHR 0xE2, CHR 0x9D, CHR 0x8C]"

definition clipboard :: string where  \<comment> \<open>U+1F4CB\<close>
  "clipboard = [CHR 0xF0, CHR 0x9F, CHR 0x93, CHR 0x8B]"

definition memo :: string where  \<comment> \<open>U+1F4DD\<close>
  "memo = [CHR 0xF0, CHR 0x9F, CHR 0x93, CHR 0x9D]"

definition information :: string where  \<comment> \<open>U+2139 U+FE0F\<close>
  "information = [CHR 0xE2, CHR 0x84, CHR 0xB9, CHR 0xEF, CHR 0xB8, CHR 0x8F]"

definition clapper_board :: string where  \<comment> \<open>U+1F3AC\<close>
  "clapper_board = [CHR 0xF0, CHR 0x9F, CHR 0x8E, CHR 0xAC]"

definition weight_lifter :: string where  \<comment> \<open>U+1F3CB U+FE0F\<close>
  "weight_lifter = [CHR 0xF0, CHR 0x9F, CHR 0x8F, CHR 0x8B, CHR 0xEF, CHR 0xB8, CHR 0x8F]"

definition stopwatch :: string where  \<comment> \<open>U+23F1 U+FE0F\<close>
  "stopwatch = [CHR 0xE2, CHR 0x8F, CHR 0xB1, CHR 0xEF, CHR 0xB8, CHR 0x8F]"

definition tools :: string where  \<comment> \<open>U+1F6E0 U+FE0F\<close>
  "tools = [CHR 0xF0, CHR 0x9F, CHR 0x9B, CHR 0xA0, CHR 0xEF, CHR 0xB8, CHR 0x8F]"

definition flexed_biceps :: string where  \<comment> \<open>U+1F4AA\<close>
  "flexed_biceps = [CHR 0xF0, CHR 0x9F, CHR 0x92, CHR 0xAA]"

definition direct_hit :: string where  \<comment> \<open>U+1F3AF\<close>
  "direct_hit = [CHR 0xF0, CHR 0x9F, CHR 0x8E, CHR 0xAF]"

definition bar_chart :: string where  \<comment> \<open>U+1F4CA\<close>
  "bar_chart = [CHR 0xF0, CHR 0x9F, CHR 0x93, CHR 0x8A]"

definition alarm_clock :: string where  \<comment> \<open>U+23F0\<close>
  "alarm_clock = [CHR 0xE2, CHR 0x8F, CHR 0xB0]"

definition light_bulb :: string where  \<comment> \<open>U+1F4A1\<close>
  "light_bulb = [CHR 0xF0, CHR 0x9F, CHR 0x92, CHR 0xA1]"

section \<open>Removal of duplicates\<close>

text \<open>\<^verbatim>\<open>exercise.get('id')\<close>, as an element of \<^verbatim>\<open>seen_ids\<close>.\<close>

definition exercise_key :: "json \<Rightarrow> py_error + json" where
  "exercise_key exercise = bind_e (py_get exercise ''id'' JNull) py_hash_key"

text \<open>
  The loop of \<^verbatim>\<open>get_beginner_workout_plan\<close>:
  \<^verbatim>\<open>
    seen_ids = set()
    unique_exercises = []
    for exercise in exercises:
        if exercise.get('id') not in seen_ids:
            seen_ids.add(exercise.get('id'))
            unique_exercises.append(exercise)
  \<close>
\<close>

fun remove_duplicates_loop :: "json set \<Rightarrow> json list \<Rightarrow> json list \<Rightarrow> py_error + json list" where
  "remove_duplicates_loop seen_ids unique_exercises [] = Inr unique_exercises"
| "remove_duplicates_loop seen_ids unique_exercises (exercise # exercises) =
     (case exercise_key exercise of
        Inl e \<Rightarrow> Inl e
      | Inr k \<Rightarrow>
          if k \<notin> seen_ids
          then remove_duplicates_loop (insert k seen_ids) (unique_exercises @ [exercise]) exercises
          else remove_duplicates_loop seen_ids unique_exercises exercises)"

definition remove_duplicates :: "json list \<Rightarrow> py_error + json list" where
  "remove_duplicates exercises = remove_duplicates_loop {} [] exercises"

text \<open>
  The loop of the other builders, which leaves once the count is reached:
  \<^verbatim>\<open>
            unique_exercises.append(exercise)
            if len(unique_exercises) >= exercise_count:
                break
  \<close>
\<close>

fun remove_duplicates_limit_loop ::
  "int \<Rightarrow> json set \<Rightarrow> json list \<Rightarrow> json list \<Rightarrow> py_error + json list" where
  "remove_duplicates_limit_loop exercise_count seen_ids unique_exercises [] = Inr unique_exercises"
| "remove_duplicates_limit_loop exercise_count seen_ids unique_exercises (exercise # exercises) =
     (case exercise_key exercise of
        Inl e \<Rightarrow> Inl e
      | Inr k \<Rightarrow>
          if k \<notin> seen_ids
          then (if int (length (unique_exercises @ [exercise])) \<ge> exercise_count
                then Inr (unique_exercises @ [exercise])
                else remove_duplicates_limit_loop exercise_count (insert k seen_ids)
                       (unique_exercises @ [exercise]) exercises)
          else remove_duplicates_limit_loop exercise_count seen_ids unique_exercises exercises)"

definition remove_duplicates_limit :: "int \<Rightarrow> json list \<Rightarrow> py_error + json list" where
  "remove_duplicates_limit exercise_count exercises =
     remove_duplicates_limit_loop exercise_count {} [] exercises"

section \<open>The formatting helpers\<close>

text \<open>\<^verbatim>\<open>exercise.get(k, default)\<close> inside an f-string.\<close>

definition get_str :: "json \<Rightarrow> string \<Rightarrow> json \<Rightarrow> py_error + string" where
  "get_str exercise k dflt = bind_e (py_get exercise k dflt) (\<lambda>v. Inr (py_str v))"

text \<open>\<^verbatim>\<open>exercise.get(k, 'N/A').title()\<close>: only a \<^verbatim>\<open>str\<close> has the method.\<close>

definition get_title :: "json \<Rightarrow> string \<Rightarrow> py_error + string" where
  "get_title exercise k =
     bind_e (py_get exercise k (JStr ''N/A''))
       (\<lambda>v. case v of JStr s \<Rightarrow> Inr (py_title s) | _ \<Rightarrow> Inl AttributeError)"

text \<open>\<^verbatim>\<open>exercise.get(k, '').lower()\<close>.\<close>

definition get_lower :: "json \<Rightarrow> string \<Rightarrow> py_error + string" where
  "get_lower exercise k =
     bind_e (py_get exercise k (JStr []))
       (\<lambda>v. case v of JStr s \<Rightarrow> Inr (py_lower s) | _ \<Rightarrow> Inl AttributeError)"

text \<open>
  \<^verbatim>\<open>
    gif_section = ""
    if exercise.get('gifUrl'):
        gif_section = f"<label>{exercise.get('gifUrl')}"
  \<close>
\<close>

definition gif_section :: "string \<Rightarrow> json \<Rightarrow> py_error + string" where
  "gif_section label exercise =
     bind_e (py_get exercise ''gifUrl'' JNull)
       (\<lambda>url. Inr (if truthy url then label @ py_str url else []))"

text \<open>
  The instructions of an entry of \<^verbatim>\<open>format_exercise_list\<close>:
  \<^verbatim>\<open>
    exercise.get('instructions', ['No instructions available'])[0][:100] + '...'
      if exercise.get('instructions') and len(exercise.get('instructions')[0]) > 100
      else exercise.get('instructions', ['No instructions available'])[0]
        if exercise.get('instructions') else 'No instructions available'
  \<close>
\<close>

definition instructions_preview :: "json \<Rightarrow> py_error + json" where
  "instructions_preview exercise =
     bind_e (py_get exercise ''instructions'' JNull) (\<lambda>instructions.
       if truthy instructions
       then bind_e (py_item0 instructions) (\<lambda>first.
            bind_e (py_len first) (\<lambda>n.
              if n > 100
              then (case first of JStr s \<Rightarrow> Inr (JStr (take 100 s @ ''...''))
                    | _ \<Rightarrow> Inl TypeError)
              else Inr first))
       else Inr (JStr ''No instructions available''))"

text \<open>The body of the loop of \<^verbatim>\<open>format_exercise_list\<close>: one entry, stripped.\<close>

definition format_exercise :: "bool \<Rightarrow> nat \<Rightarrow> json \<Rightarrow> py_error + string" where
  "format_exercise show_gif i exercise =
     bind_e (if show_gif then gif_section (nl @ ''- **Visual Guide (GIF):** '') exercise
             else Inr []) (\<lambda>gif.
     bind_e (get_str exercise ''name'' (JStr ''Unknown Exercise'')) (\<lambda>name.
     bind_e (get_str exercise ''id'' (JStr ''N/A'')) (\<lambda>ident.
     bind_e (get_title exercise ''bodyPart'') (\<lambda>body_part.
     bind_e (get_title exercise ''target'') (\<lambda>target.
     bind_e (get_title exercise ''equipment'') (\<lambda>equipment.
     bind_e (instructions_preview exercise) (\<lambda>instructions.
     Inr (py_strip
       (nl @ ''**'' @ str_of_nat i @ ''. '' @ name @ ''**'' @ nl @ ''- **ID:** '' @ ident @
        nl @ ''- **Body Part:** '' @ body_part @
        nl @ ''- **Target Muscle:** '' @ target @
        nl @ ''- **Equipment:** '' @ equipment @
        nl @ ''- **Instructions:** '' @ py_str instructions @ gif @ nl)))))))))"

text \<open>\<^verbatim>\<open>for i, exercise in enumerate(display_exercises, 1)\<close>, from the index \<open>i\<close> on.\<close>

fun format_exercises :: "bool \<Rightarrow> nat \<Rightarrow> json list \<Rightarrow> py_error + string list" where
  "format_exercises show_gif i [] = Inr []"
| "format_exercises show_gif i (exercise # display_exercises) =
     bind_e (format_exercise show_gif i exercise) (\<lambda>formatted.
     bind_e (format_exercises show_gif (Suc i) display_exercises) (\<lambda>formatted_exercises.
     Inr (formatted # formatted_exercises)))"

definition more_available :: "int \<Rightarrow> string" where
  "more_available n =
     nl @ nl @ ''... and '' @ str_of_int n @
     '' more exercises available. Use specific filters to narrow down results.''"

definition format_exercise_list :: "json list \<Rightarrow> int \<Rightarrow> bool \<Rightarrow> py_error + string" where
  "format_exercise_list exercises limit show_gif =
     (if exercises = [] then Inr ''No exercises found.''
      else bind_e (format_exercises show_gif 1 (slice_to limit exercises))
        (\<lambda>formatted_exercises.
           Inr (py_join (nl @ nl) formatted_exercises @
                (if int (length exercises) > limit
                 then more_available (int (length exercises) - limit) else []))))"

text \<open>\<^verbatim>\<open>[f"{i+1}. {instruction}" for i, instruction in enumerate(instructions)]\<close>\<close>

fun numbered_instructions :: "nat \<Rightarrow> json list \<Rightarrow> string list" where
  "numbered_instructions i [] = []"
| "numbered_instructions i (instruction # instructions) =
     (str_of_nat (i + 1) @ ''. '' @ py_str instruction) #
     numbered_instructions (Suc i) instructions"

text \<open>\<^verbatim>\<open>[muscle.title() for muscle in secondary_muscles]\<close>\<close>

fun muscle_titles :: "json list \<Rightarrow> py_error + string list" where
  "muscle_titles [] = Inr []"
| "muscle_titles (muscle # secondary_muscles) =
     bind_e (case muscle of JStr s \<Rightarrow> Inr (py_title s) | _ \<Rightarrow> Inl AttributeError) (\<lambda>t.
     bind_e (muscle_titles secondary_muscles) (\<lambda>ts. Inr (t # ts)))"

definition format_exercise_detail :: "json \<Rightarrow> py_error + string" where
  "format_exercise_detail exercise =
     (if \<not> truthy exercise then Inr ''Exercise not found.''
      else
        bind_e (py_get exercise ''instructions'' (JList [])) (\<lambda>instructions.
        bind_e (py_iter instructions) (\<lambda>instruction_items.
        let instructions_text = py_join nl (numbered_instructions 0 instruction_items) in
        bind_e (py_get exercise ''secondaryMuscles'' (JList [])) (\<lambda>secondary_muscles.
        bind_e (if truthy secondary_muscles
                then bind_e (py_iter secondary_muscles) (\<lambda>muscles.
                     bind_e (muscle_titles muscles) (\<lambda>ts. Inr (py_join '', '' ts)))
                else Inr ''None'') (\<lambda>secondary_text.
        bind_e (gif_section (nl @ ''**'' @ clapper_board @ '' Exercise Demonstration (GIF):** '')
                  exercise) (\<lambda>gif.
        bind_e (get_str exercise ''name'' (JStr ''Unknown Exercise'')) (\<lambda>name.
        bind_e (get_str exercise ''id'' (JStr ''N/A'')) (\<lambda>ident.
        bind_e (get_title exercise ''bodyPart'') (\<lambda>body_part.
        bind_e (get_title exercise ''target'') (\<lambda>target.
        bind_e (get_title exercise ''equipment'') (\<lambda>equipment.
        bind_e (get_str exercise ''category'' (JStr ''N/A'')) (\<lambda>category.
        bind_e (get_str exercise ''difficulty'' (JStr ''N/A'')) (\<lambda>difficulty.
        Inr (nl @ ''**'' @ name @
             ''**'' @ nl @ nl @ ''**'' @ clipboard @ '' Basic Information:**'' @ nl @
             ''- **ID:** '' @ ident @
             nl @ ''- **Body Part:** '' @ body_part @
             nl @ ''- **Primary Target:** '' @ target @
             nl @ ''- **Secondary Muscles:** '' @ secondary_text @
             nl @ ''- **Equipment:** '' @ equipment @
             nl @ nl @ ''**'' @ memo @ '' Step-by-Step Instructions:**'' @ nl @
             (if instructions_text = [] then ''No detailed instructions available''
              else instructions_text) @
             nl @ gif @
             nl @ nl @ ''**'' @ information @ '' Additional Information:**'' @ nl @
             ''- **Category:** '' @ category @
             nl @ ''- **Difficulty:** '' @ difficulty @
             nl))))))))))))))"

text \<open>
  The sets and repetitions suggested by \<^verbatim>\<open>format_workout_plan\<close>; the target is not read
  for a cardio exercise.
\<close>

definition sets_reps :: "json \<Rightarrow> py_error + string" where
  "sets_reps exercise =
     bind_e (get_lower exercise ''bodyPart'') (\<lambda>body_part.
       if sublist ''cardio'' body_part then Inr ''3 sets of 30-45 seconds''
       else bind_e (get_lower exercise ''target'') (\<lambda>target.
         Inr (if sublist ''abs'' target \<or> sublist ''core'' target
              then ''3 sets of 12-20 reps'' else ''3 sets of 8-12 reps'')))"

text \<open>The body of the loop of \<^verbatim>\<open>format_workout_plan\<close>.\<close>

definition workout_exercise :: "nat \<Rightarrow> json \<Rightarrow> py_error + string" where
  "workout_exercise i exercise =
     bind_e (py_get exercise ''instructions'' (JList [])) (\<lambda>instructions.
     bind_e (if truthy instructions then py_item0 instructions
             else Inr (JStr ''Follow proper form and controlled movement''))
       (\<lambda>main_instruction.
     bind_e (sets_reps exercise) (\<lambda>sets.
     bind_e (gif_section (nl @ ''- **'' @ clapper_board @ '' Exercise Demo:** '') exercise)
       (\<lambda>gif.
     bind_e (get_str exercise ''name'' (JStr ''Unknown Exercise'')) (\<lambda>name.
     bind_e (get_title exercise ''target'') (\<lambda>target.
     bind_e (get_title exercise ''equipment'') (\<lambda>equipment.
     Inr (nl @ ''### Exercise '' @ str_of_nat i @ '': '' @ name @
          nl @ ''- **'' @ direct_hit @ '' Target:** '' @ target @
          nl @ ''- **'' @ tools @ '' Equipment:** '' @ equipment @
          nl @ ''- **'' @ memo @ '' Key Instruction:** '' @ py_str main_instruction @
          nl @ ''- **'' @ bar_chart @ '' Sets/Reps:** '' @ sets @
          nl @ ''- **'' @ alarm_clock @ '' Rest:** 60-90 seconds between sets'' @ gif @
          nl @ nl))))))))"

fun workout_exercises :: "nat \<Rightarrow> json list \<Rightarrow> py_error + string" where
  "workout_exercises i [] = Inr []"
| "workout_exercises i (exercise # exercises) =
     bind_e (workout_exercise i exercise) (\<lambda>block.
     bind_e (workout_exercises (Suc i) exercises) (\<lambda>blocks. Inr (block @ blocks)))"

definition workout_guidelines :: string where
  "workout_guidelines =
     nl @ ''## '' @ light_bulb @ '' Workout Guidelines:'' @ nl @
     ''- **Warm-up:** 5-10 minutes of light cardio and dynamic stretching'' @ nl @
     ''- **Form Focus:** Quality over quantity - maintain proper form '' @ ''throughout'' @
     nl @ ''- **Progressive Overload:** Gradually increase intensity as you get '' @
     ''stronger'' @ nl @
     ''- **Rest Periods:** Allow adequate rest between exercises and sets'' @ nl @
     ''- **Cool-down:** 5-10 minutes of stretching and breathing exercises'' @ nl @
     ''- **Hydration:** Keep water nearby and stay hydrated'' @ nl @
     ''- **Listen to Your Body:** Stop if you feel pain or excessive fatigue'' @ nl @ nl @
     ''## '' @ clapper_board @ '' Visual Guides:'' @ nl @
     ''All exercises include animated GIF demonstrations to help you maintain '' @
     ''proper form and technique.'' @ nl"

definition format_workout_plan ::
  "json list \<Rightarrow> string \<Rightarrow> string \<Rightarrow> int \<Rightarrow> py_error + string" where
  "format_workout_plan exercises workout_type equipment duration =
     (if exercises = [] then Inr ''No exercises found for this workout plan.''
      else bind_e (workout_exercises 1 exercises) (\<lambda>blocks.
        Inr (nl @ ''# '' @ weight_lifter @ '' '' @ py_title workout_type @
             '' Workout Plan'' @ nl @ nl @ ''**'' @ stopwatch @ '' Duration:** ~'' @
             str_of_int duration @
             '' minutes'' @ nl @ ''**'' @ tools @ '' Equipment:** '' @ py_title equipment @
             nl @ ''**'' @ flexed_biceps @ '' Total Exercises:** '' @
             str_of_nat (length exercises) @
             nl @ nl @ ''## '' @ direct_hit @ '' Workout Structure'' @ nl @ nl @
             blocks @ workout_guidelines)))"

section \<open>The cached fetch\<close>

text \<open>
  What happens inside the \<^verbatim>\<open>try\<close> block of \<^verbatim>\<open>make_api_request\<close>: \<^verbatim>\<open>client.get\<close> raises
  (no connection, time-out), \<^verbatim>\<open>raise_for_status\<close> raises \<^verbatim>\<open>HTTPStatusError\<close> with the status
  code of the response, \<^verbatim>\<open>response.json()\<close> raises, or the body is parsed.
\<close>

datatype response =
    GetRaises string
  | StatusError int
  | JsonRaises string
  | Parsed json

text \<open>
  The surroundings of the process: \<open>dumps\<close> is \<^verbatim>\<open>json.dumps(_, sort_keys=True)\<close>, and
  \<open>http_get n url params\<close> is the outcome of the request for \<open>url\<close> with the query
  \<open>params\<close> when \<open>n\<close> requests have been sent before it, so that the upstream may answer
  the same request differently at different times.
\<close>

record env =
  dumps :: "(string \<times> json) list \<Rightarrow> string"
  http_get :: "nat \<Rightarrow> string \<Rightarrow> (string \<times> json) list \<Rightarrow> response"

text \<open>
  The state of the process: the module-level \<^verbatim>\<open>_cache\<close>, the lines printed so far and the
  number of requests sent.
\<close>

record state =
  cache :: "string \<rightharpoonup> json"
  printed :: "string list"
  requests :: nat

definition initial_state :: state where
  "initial_state = \<lparr>cache = Map.empty, printed = [], requests = 0\<rparr>"

definition API_BASE_URL :: string where
  "API_BASE_URL = ''https://exercisedb.p.rapidapi.com''"

text \<open>\<^verbatim>\<open>params or {}\<close>\<close>

definition params_or_empty :: "(string \<times> json) list option \<Rightarrow> (string \<times> json) list" where
  "params_or_empty params = (case params of None \<Rightarrow> [] | Some d \<Rightarrow> d)"

definition cache_key :: "env \<Rightarrow> string \<Rightarrow> (string \<times> json) list option \<Rightarrow> string" where
  "cache_key e endpoint params = endpoint @ ''_'' @ dumps e (params_or_empty params)"

text \<open>The lines printed by the two \<^verbatim>\<open>except\<close> clauses.\<close>

definition error_lines :: "response \<Rightarrow> string list" where
  "error_lines r =
     (case r of
        StatusError status_code \<Rightarrow>
          (''HTTP error occurred: '' @ str_of_int status_code) #
          (if status_code = 401
           then [''Authentication failed. Please check your RapidAPI key.''] else [])
      | GetRaises msg \<Rightarrow> [''An error occurred: '' @ msg]
      | JsonRaises msg \<Rightarrow> [''An error occurred: '' @ msg]
      | Parsed data \<Rightarrow> [])"

text \<open>The result is the value returned (\<open>JNull\<close> is \<^verbatim>\<open>None\<close>) and the state after the call.\<close>

definition make_api_request ::
  "env \<Rightarrow> string \<Rightarrow> (string \<times> json) list option \<Rightarrow> bool \<Rightarrow> state \<Rightarrow> json \<times> state" where
  "make_api_request e endpoint params use_cache st =
     (let key = cache_key e endpoint params in
      case (if use_cache then cache st key else None) of
        Some cached \<Rightarrow> (cached, st)
      | None \<Rightarrow>
        (let url = API_BASE_URL @ endpoint;
             r = http_get e (requests st) url (params_or_empty params);
             st' = st\<lparr>requests := Suc (requests st)\<rparr>
         in case r of
              Parsed data \<Rightarrow>
                (data, if use_cache then st'\<lparr>cache := (cache st)(key \<mapsto> data)\<rparr> else st')
            | _ \<Rightarrow> (JNull, st'\<lparr>printed := printed st @ error_lines r\<rparr>)))"

section \<open>Overlapping calls\<close>

text \<open>
  \<^verbatim>\<open>make_api_request\<close> is a coroutine: between its test of the cache and its write to the
  cache it is suspended at \<^verbatim>\<open>await client.get(...)\<close>, where other calls may run. A call in
  flight is a call suspended there: it holds its key, its \<^verbatim>\<open>use_cache\<close> and the response that
  resumes it.
\<close>

record in_flight =
  flight_key :: string
  flight_use_cache :: bool
  flight_response :: response

text \<open>
  The part of \<^verbatim>\<open>make_api_request\<close> before the suspension: a hit returns the stored value,
  a miss sends the request.
\<close>

definition start_request ::
  "env \<Rightarrow> string \<Rightarrow> (string \<times> json) list option \<Rightarrow> bool \<Rightarrow> state \<Rightarrow> (json + in_flight) \<times> state"
  where
  "start_request e endpoint params use_cache st =
     (let key = cache_key e endpoint params in
      case (if use_cache then cache st key else None) of
        Some cached \<Rightarrow> (Inl cached, st)
      | None \<Rightarrow>
          (Inr \<lparr>flight_key = key, flight_use_cache = use_cache,
                flight_response =
                  http_get e (requests st) (API_BASE_URL @ endpoint) (params_or_empty params)\<rparr>,
           st\<lparr>requests := Suc (requests st)\<rparr>))"

text \<open>The part after the suspension, in the state that the process has by then.\<close>

definition finish_request :: "in_flight \<Rightarrow> state \<Rightarrow> json \<times> state" where
  "finish_request c st =
     (case flight_response c of
        Parsed data \<Rightarrow>
          (data, if flight_use_cache c then st\<lparr>cache := (cache st)(flight_key c \<mapsto> data)\<rparr>
                 else st)
      | r \<Rightarrow> (JNull, st\<lparr>printed := printed st @ error_lines r\<rparr>))"

text \<open>
  The events of a process: a call starts, or the call at position \<open>i\<close> among those in
  flight is resumed. A step gives the value that a call returns at this event, if one
  returns, and the state and the calls in flight after it.
\<close>

datatype event =
    Start string "(string \<times> json) list option" bool
  | Resume nat

fun step ::
  "env \<Rightarrow> event \<Rightarrow> state \<times> in_flight list \<Rightarrow> json option \<times> state \<times> in_flight list" where
  "step e (Start endpoint params use_cache) (st, flights) =
     (case start_request e endpoint params use_cache st of
        (Inl cached, st') \<Rightarrow> (Some cached, st', flights)
      | (Inr c, st') \<Rightarrow> (None, st', flights @ [c]))"
| "step e (Resume i) (st, flights) =
     (if i < length flights
      then (let (v, st') = finish_request (flights ! i) st
            in (Some v, st', take i flights @ drop (Suc i) flights))
      else (None, st, flights))"


section \<open>The tools\<close>

definition fetch_failed :: "string \<Rightarrow> string" where
  "fetch_failed exercise_id =
     cross_mark @ '' Unable to fetch exercise with ID: '' @ exercise_id @
     ''. Please verify the ID is correct.''"

definition get_exercise_by_id :: "env \<Rightarrow> string \<Rightarrow> state \<Rightarrow> (py_error + string) \<times> state" where
  "get_exercise_by_id e exercise_id st =
     (let (data, st') = make_api_request e (''/exercises/exercise/'' @ exercise_id) None True st
      in if \<not> truthy data then (Inr (fetch_failed exercise_id), st')
         else (format_exercise_detail data, st'))"

subsection \<open>Selection by equipment\<close>

text \<open>\<^verbatim>\<open>equipment.lower() not in ["any", "all"]\<close>\<close>

definition specific_equipment :: "string \<Rightarrow> bool" where
  "specific_equipment equipment \<longleftrightarrow> py_lower equipment \<notin> set [''any'', ''all'']"

text \<open>\<^verbatim>\<open>equipment.lower() in ex.get('equipment', '').lower()\<close>\<close>

definition equipment_matches :: "string \<Rightarrow> json \<Rightarrow> py_error + bool" where
  "equipment_matches equipment ex =
     bind_e (get_lower ex ''equipment'') (\<lambda>s. Inr (sublist (py_lower equipment) s))"

text \<open>\<^verbatim>\<open>[ex for ex in data if equipment.lower() in ex.get('equipment', '').lower()]\<close>\<close>

fun equipment_filter :: "string \<Rightarrow> json list \<Rightarrow> py_error + json list" where
  "equipment_filter equipment [] = Inr []"
| "equipment_filter equipment (ex # data) =
     bind_e (equipment_matches equipment ex) (\<lambda>keep.
     bind_e (equipment_filter equipment data) (\<lambda>kept.
     Inr (if keep then ex # kept else kept)))"

text \<open>
  The step that every builder repeats for each payload; the result is what it appends to
  \<^verbatim>\<open>exercises\<close>:
  \<^verbatim>\<open>
    if part_data:
        if equipment.lower() not in ["any", "all"]:
            part_data = [ex for ex in part_data if equipment.lower() in ex.get('equipment', '').lower()]
        exercises.extend(part_data[:n])
  \<close>
\<close>

definition select_exercises :: "string \<Rightarrow> json \<Rightarrow> int \<Rightarrow> py_error + json list" where
  "select_exercises equipment part_data n =
     (if truthy part_data
      then bind_e (if specific_equipment equipment
                   then bind_e (py_iter part_data) (\<lambda>xs.
                        bind_e (equipment_filter equipment xs) (\<lambda>ys. Inr (JList ys)))
                   else Inr part_data) (\<lambda>filtered.
           bind_e (py_slice_to filtered n) py_iter)
      else Inr [])"

text \<open>A builder either raises or returns a value, and leaves a state in both cases.\<close>

definition bind_s ::
  "(py_error + 'a) \<times> state \<Rightarrow> ('a \<Rightarrow> state \<Rightarrow> (py_error + 'b) \<times> state) \<Rightarrow> (py_error + 'b) \<times> state" where
  "bind_s r f = (case r of (Inl err, st) \<Rightarrow> (Inl err, st) | (Inr a, st) \<Rightarrow> f a st)"

text \<open>One payload: the fetch of \<open>endpoint\<close>, then the step above.\<close>

definition fetch_selection ::
  "env \<Rightarrow> string \<Rightarrow> string \<Rightarrow> int \<Rightarrow> state \<Rightarrow> (py_error + json list) \<times> state" where
  "fetch_selection e endpoint equipment n st =
     (let (data, st') = make_api_request e endpoint None True st
      in (select_exercises equipment data n, st'))"

text \<open>
  \<^verbatim>\<open>
    for body_part in body_parts:
        part_data = await make_api_request(f"/exercises/bodyPart/{body_part}")
        if part_data: ...
            exercises.extend(part_data[:exercises_per_part])
  \<close>
\<close>

fun fetch_body_parts ::
  "env \<Rightarrow> string \<Rightarrow> int \<Rightarrow> string list \<Rightarrow> json list \<Rightarrow> state \<Rightarrow> (py_error + json list) \<times> state"
  where
  "fetch_body_parts e equipment n [] exercises st = (Inr exercises, st)"
| "fetch_body_parts e equipment n (body_part # body_parts) exercises st =
     bind_s (fetch_selection e (''/exercises/bodyPart/'' @ body_part) equipment n st)
       (\<lambda>selected. fetch_body_parts e equipment n body_parts (exercises @ selected))"

subsection \<open>\<^verbatim>\<open>create_personalized_workout\<close>\<close>

definition exercise_count_for :: "int \<Rightarrow> string \<Rightarrow> int" where
  "exercise_count_for duration_minutes fitness_level =
     (let exercise_count =
            (if duration_minutes \<le> 20 then 4 else if duration_minutes \<le> 40 then 6 else 8)
      in if py_lower fitness_level = ''beginner'' then max 3 (exercise_count - 1)
         else if py_lower fitness_level = ''advanced'' then min 12 (exercise_count + 2)
         else exercise_count)"

text \<open>
  The branch for the legs joins two payloads before it filters:
  \<^verbatim>\<open>
    combined_data = []
    if upper_legs: combined_data.extend(upper_legs)
    if lower_legs: combined_data.extend(lower_legs)
    if combined_data:
        if equipment.lower() not in ["any", "all"]:
            combined_data = [ex for ex in combined_data if ...]
        exercises.extend(combined_data[:exercise_count])
  \<close>
\<close>

definition select_legs :: "string \<Rightarrow> json \<Rightarrow> json \<Rightarrow> int \<Rightarrow> py_error + json list" where
  "select_legs equipment upper_legs lower_legs exercise_count =
     bind_e (if truthy upper_legs then py_iter upper_legs else Inr []) (\<lambda>upper.
     bind_e (if truthy lower_legs then py_iter lower_legs else Inr []) (\<lambda>lower.
     let combined_data = upper @ lower in
     if combined_data \<noteq> []
     then bind_e (if specific_equipment equipment then equipment_filter equipment combined_data
                  else Inr combined_data)
            (\<lambda>filtered. Inr (slice_to exercise_count filtered))
     else Inr []))"

text \<open>The chain \<^verbatim>\<open>if "chest" in workout_type.lower(): ... elif ... else: ...\<close>.\<close>

definition workout_type_exercises ::
  "env \<Rightarrow> string \<Rightarrow> string \<Rightarrow> int \<Rightarrow> state \<Rightarrow> (py_error + json list) \<times> state" where
  "workout_type_exercises e workout_type equipment exercise_count st =
     (let wt = py_lower workout_type in
      if sublist ''chest'' wt
      then fetch_selection e ''/exercises/bodyPart/chest'' equipment exercise_count st
      else if sublist ''full body'' wt \<or> sublist ''full-body'' wt
      then (let body_parts = [''chest'', ''back'', ''upper legs'', ''shoulders'', ''upper arms'',
                              ''waist''];
                exercises_per_part = max 1 (exercise_count div int (length body_parts))
            in fetch_body_parts e equipment exercises_per_part body_parts [] st)
      else if sublist ''leg'' wt \<or> sublist ''lower body'' wt
      then (let (upper_legs, st1) =
                  make_api_request e ''/exercises/bodyPart/upper legs'' None True st;
                (lower_legs, st2) =
                  make_api_request e ''/exercises/bodyPart/lower legs'' None True st1
            in (select_legs equipment upper_legs lower_legs exercise_count, st2))
      else if sublist ''upper body'' wt
      then (let upper_parts = [''chest'', ''back'', ''shoulders'', ''upper arms''];
                exercises_per_part = max 1 (exercise_count div int (length upper_parts))
            in fetch_body_parts e equipment exercises_per_part upper_parts [] st)
      else if sublist ''cardio'' wt \<or> sublist ''hiit'' wt
      then fetch_selection e ''/exercises/bodyPart/cardio'' equipment exercise_count st
      else fetch_selection e (''/exercises/bodyPart/'' @ wt) equipment exercise_count st)"

text \<open>
  \<^verbatim>\<open>
    # If no exercises found, try equipment-based search
    if not exercises and equipment.lower() not in ["any", "all"]:
        equipment_data = await make_api_request(f"/exercises/equipment/{...}")
        if equipment_data:
            exercises.extend(equipment_data[:exercise_count])
  \<close>
\<close>

definition equipment_search ::
  "env \<Rightarrow> string \<Rightarrow> int \<Rightarrow> json list \<Rightarrow> state \<Rightarrow> (py_error + json list) \<times> state" where
  "equipment_search e equipment exercise_count exercises st =
     (if exercises = [] \<and> specific_equipment equipment
      then (let (equipment_data, st') =
                  make_api_request e
                    (''/exercises/equipment/'' @ replace_spaces (py_lower equipment)) None True st
            in (if truthy equipment_data
                then bind_e (py_slice_to equipment_data exercise_count) py_iter
                else Inr [], st'))
      else (Inr exercises, st))"

text \<open>The list \<^verbatim>\<open>unique_exercises\<close> of \<^verbatim>\<open>create_personalized_workout\<close>.\<close>

definition personalized_exercises ::
  "env \<Rightarrow> string \<Rightarrow> string \<Rightarrow> int \<Rightarrow> string \<Rightarrow> state \<Rightarrow> (py_error + json list) \<times> state" where
  "personalized_exercises e workout_type equipment duration_minutes fitness_level st =
     (let exercise_count = exercise_count_for duration_minutes fitness_level in
      bind_s (workout_type_exercises e workout_type equipment exercise_count st)
        (\<lambda>exercises st1.
      bind_s (equipment_search e equipment exercise_count exercises st1)
        (\<lambda>exercises st2. (remove_duplicates_limit exercise_count exercises, st2))))"

definition no_workout_plan :: "string \<Rightarrow> string \<Rightarrow> string" where
  "no_workout_plan workout_type equipment =
     cross_mark @ '' Unable to create workout plan for '' @ [CHR 0x27] @ workout_type @
     [CHR 0x27] @ '' with '' @ [CHR 0x27] @ equipment @
     [CHR 0x27] @ '' equipment. Try different parameters.''"

text \<open>The parameter \<^verbatim>\<open>focus_areas\<close> is not read by the function.\<close>

definition create_personalized_workout ::
  "env \<Rightarrow> string \<Rightarrow> string \<Rightarrow> int \<Rightarrow> string \<Rightarrow> string \<Rightarrow> state \<Rightarrow> (py_error + string) \<times> state"
  where
  "create_personalized_workout e workout_type equipment duration_minutes fitness_level
       focus_areas st =
     bind_s (personalized_exercises e workout_type equipment duration_minutes fitness_level st)
       (\<lambda>unique_exercises st'.
          if unique_exercises = [] then (Inr (no_workout_plan workout_type equipment), st')
          else (format_workout_plan unique_exercises workout_type equipment duration_minutes,
                st'))"

subsection \<open>The other builders\<close>

text \<open>
  For the four builders below the model gives the list \<^verbatim>\<open>unique_exercises\<close>; the text that
  each of them returns renders the records of this list and no others
  (\<^verbatim>\<open>get_beginner_workout_plan\<close> renders \<^verbatim>\<open>unique_exercises[:8]\<close>).
\<close>

text \<open>The chain \<^verbatim>\<open>if "full body" in target_areas.lower(): ... elif ...\<close> of \<^verbatim>\<open>create_circuit_training\<close>.\<close>

definition target_area_exercises ::
  "env \<Rightarrow> string \<Rightarrow> string \<Rightarrow> int \<Rightarrow> state \<Rightarrow> (py_error + json list) \<times> state" where
  "target_area_exercises e target_areas equipment exercises_per_round st =
     (let ta = py_lower target_areas in
      if sublist ''full body'' ta
      then (let body_parts = [''chest'', ''back'', ''upper legs'', ''shoulders'', ''upper arms'',
                              ''waist''];
                exercises_per_part = max 1 (exercises_per_round div int (length body_parts))
            in fetch_body_parts e equipment exercises_per_part body_parts [] st)
      else if sublist ''upper body'' ta
      then (let upper_parts = [''chest'', ''back'', ''shoulders'', ''upper arms''];
                exercises_per_part = max 1 (exercises_per_round div int (length upper_parts))
            in fetch_body_parts e equipment exercises_per_part upper_parts [] st)
      else if sublist ''lower body'' ta
      then (let lower_parts = [''upper legs'', ''lower legs''];
                exercises_per_part = max 1 (exercises_per_round div int (length lower_parts))
            in fetch_body_parts e equipment exercises_per_part lower_parts [] st)
      else if sublist ''core'' ta \<or> sublist ''abs'' ta
      then fetch_selection e ''/exercises/bodyPart/waist'' equipment exercises_per_round st
      else if sublist ''cardio'' ta
      then fetch_selection e ''/exercises/bodyPart/cardio'' equipment exercises_per_round st
      else (Inr [], st))"

definition circuit_exercises ::
  "env \<Rightarrow> string \<Rightarrow> string \<Rightarrow> int \<Rightarrow> state \<Rightarrow> (py_error + json list) \<times> state" where
  "circuit_exercises e target_areas equipment exercises_per_round st =
     bind_s (target_area_exercises e target_areas equipment exercises_per_round st)
       (\<lambda>exercises st'. (remove_duplicates_limit exercises_per_round exercises, st'))"

text \<open>The chain of \<^verbatim>\<open>get_beginner_workout_plan\<close>.\<close>

definition focus_area_exercises ::
  "env \<Rightarrow> string \<Rightarrow> string \<Rightarrow> state \<Rightarrow> (py_error + json list) \<times> state" where
  "focus_area_exercises e focus_area equipment st =
     (let fa = py_lower focus_area in
      if sublist ''full body'' fa
      then (let body_parts = [''chest'', ''back'', ''upper legs'', ''shoulders'', ''upper arms'',
                              ''waist'']
            in fetch_body_parts e equipment 2 (slice_to 4 body_parts) [] st)
      else if sublist ''upper body'' fa
      then fetch_body_parts e equipment 2 [''chest'', ''back'', ''shoulders'', ''upper arms''] [] st
      else if sublist ''lower body'' fa
      then fetch_body_parts e equipment 3 [''upper legs'', ''lower legs''] [] st
      else if sublist ''core'' fa
      then fetch_selection e ''/exercises/bodyPart/waist'' equipment 6 st
      else (Inr [], st))"

definition beginner_exercises ::
  "env \<Rightarrow> string \<Rightarrow> string \<Rightarrow> state \<Rightarrow> (py_error + json list) \<times> state" where
  "beginner_exercises e focus_area equipment st =
     bind_s (focus_area_exercises e focus_area equipment st)
       (\<lambda>exercises st'. (remove_duplicates exercises, st'))"

text \<open>\<^verbatim>\<open>for i, exercise in enumerate(unique_exercises[:8], 1)\<close>\<close>

definition beginner_rendered ::
  "env \<Rightarrow> string \<Rightarrow> string \<Rightarrow> state \<Rightarrow> (py_error + json list) \<times> state" where
  "beginner_rendered e focus_area equipment st =
     bind_s (beginner_exercises e focus_area equipment st)
       (\<lambda>unique_exercises st'. (Inr (slice_to 8 unique_exercises), st'))"

definition difficulty_exercise_count :: "string \<Rightarrow> int" where
  "difficulty_exercise_count difficulty =
     (if py_lower difficulty = ''beginner'' then 5
      else if py_lower difficulty = ''intermediate'' then 7 else 9)"

text \<open>The two branches of \<^verbatim>\<open>get_workout_by_difficulty\<close>.\<close>

definition body_focus_exercises ::
  "env \<Rightarrow> string \<Rightarrow> string \<Rightarrow> int \<Rightarrow> state \<Rightarrow> (py_error + json list) \<times> state" where
  "body_focus_exercises e body_focus equipment exercise_count st =
     (if sublist ''full body'' (py_lower body_focus)
      then (let body_parts = [''chest'', ''back'', ''upper legs'', ''shoulders'',
                              ''upper arms'', ''waist''];
                exercises_per_part = max 1 (exercise_count div int (length body_parts))
            in fetch_body_parts e equipment exercises_per_part body_parts [] st)
      else fetch_selection e (''/exercises/bodyPart/'' @ py_lower body_focus) equipment
             exercise_count st)"

definition difficulty_exercises ::
  "env \<Rightarrow> string \<Rightarrow> string \<Rightarrow> string \<Rightarrow> state \<Rightarrow> (py_error + json list) \<times> state" where
  "difficulty_exercises e difficulty body_focus equipment st =
     (let exercise_count = difficulty_exercise_count difficulty in
      bind_s (body_focus_exercises e body_focus equipment exercise_count st)
        (\<lambda>exercises st'. (remove_duplicates_limit exercise_count exercises, st')))"

text \<open>
  \<^verbatim>\<open>create_hiit_workout\<close> fetches the cardio payload first and filters it after the loop
  over the body parts.
\<close>

definition hiit_exercises :: "env \<Rightarrow> string \<Rightarrow> state \<Rightarrow> (py_error + json list) \<times> state" where
  "hiit_exercises e equipment st =
     (let (cardio_exercises, st1) =
            make_api_request e ''/exercises/bodyPart/cardio'' None True st
      in bind_s (fetch_body_parts e equipment 2 [''chest'', ''back'', ''upper legs'', ''shoulders'']
                   [] st1)
           (\<lambda>compound_exercises st2.
              (bind_e (select_exercises equipment cardio_exercises 3) (\<lambda>cardio.
                 remove_duplicates_limit 6 (cardio @ compound_exercises)), st2)))"

section \<open>Notions used by the properties\<close>

text \<open>A record that the removal of duplicates can process: a dict whose \<^verbatim>\<open>id\<close>, if any, is hashable.\<close>

definition has_id :: "json \<Rightarrow> bool" where
  "has_id exercise = (case exercise_key exercise of Inl err \<Rightarrow> False | Inr k \<Rightarrow> True)"

text \<open>A record without the key \<^verbatim>\<open>id\<close>.\<close>

fun lacks_id :: "json \<Rightarrow> bool" where
  "lacks_id (JObj d) = (map_of d ''id'' = None)"
| "lacks_id _ = False"

text \<open>
  The position \<open>i\<close> is the first of the list that bears its identifier; the records at
  these positions, in the order of the list.
\<close>

definition is_first_position :: "json list \<Rightarrow> nat \<Rightarrow> bool" where
  "is_first_position exercises i =
     list_all (\<lambda>j. exercise_key (exercises ! j) \<noteq> exercise_key (exercises ! i)) [0..<i]"

definition first_records :: "json list \<Rightarrow> json list" where
  "first_records exercises =
     map (\<lambda>i. exercises ! i) (filter (is_first_position exercises) [0..<length exercises])"

text \<open>
  The records whose identifier is not in \<open>seen\<close> and has not occurred before, by recursion
  on the list.
\<close>

fun first_occurrences :: "json set \<Rightarrow> json list \<Rightarrow> json list" where
  "first_occurrences seen [] = []"
| "first_occurrences seen (x # xs) =
     (case exercise_key x of
        Inl err \<Rightarrow> first_occurrences seen xs
      | Inr k \<Rightarrow> if k \<in> seen then first_occurrences seen xs
                 else x # first_occurrences (insert k seen) xs)"

text \<open>
  The equipment field of the record (\<^verbatim>\<open>ex.get('equipment', '')\<close>) is a string that contains
  \<open>equipment\<close>, cases ignored.
\<close>

definition equipment_contains :: "string \<Rightarrow> json \<Rightarrow> bool" where
  "equipment_contains equipment ex =
     (case py_get ex ''equipment'' (JStr []) of
        Inr (JStr s) \<Rightarrow> sublist (py_lower equipment) (py_lower s)
      | _ \<Rightarrow> False)"

text \<open>
  An exercise record of the data model: a dict whose identifier, name, body part, target,
  equipment, category, difficulty and media URL are strings, and whose secondary muscles
  and instructions are lists of strings, where they are present.
\<close>

fun is_str :: "json \<Rightarrow> bool" where
  "is_str (JStr s) = True"
| "is_str _ = False"

fun is_str_list :: "json \<Rightarrow> bool" where
  "is_str_list (JList xs) = list_all is_str xs"
| "is_str_list _ = False"

definition field_is :: "(json \<Rightarrow> bool) \<Rightarrow> (string \<times> json) list \<Rightarrow> string \<Rightarrow> bool" where
  "field_is P d k = (case map_of d k of None \<Rightarrow> True | Some v \<Rightarrow> P v)"

fun exercise_record :: "json \<Rightarrow> bool" where
  "exercise_record (JObj d) =
     (list_all (field_is is_str d)
        [''id'', ''name'', ''bodyPart'', ''target'', ''equipment'', ''category'', ''difficulty'',
         ''gifUrl''] \<and>
      list_all (field_is is_str_list d) [''secondaryMuscles'', ''instructions''])"
| "exercise_record _ = False"

section \<open>Notions used by the properties of the cache\<close>

text \<open>
  A sequence of calls of \<^verbatim>\<open>make_api_request\<close>, with any arguments, in one process, each of
  which returns before the next one starts. Calls that overlap are runs of \<open>run_events\<close>.
\<close>

fun run_requests ::
  "env \<Rightarrow> (string \<times> (string \<times> json) list option \<times> bool) list \<Rightarrow> state \<Rightarrow> state" where
  "run_requests e [] st = st"
| "run_requests e ((endpoint, params, use_cache) # calls) st =
     run_requests e calls (snd (make_api_request e endpoint params use_cache st))"

text \<open>The response that a call in the state \<open>st\<close> receives if it reaches the network.\<close>

definition response_at ::
  "env \<Rightarrow> string \<Rightarrow> (string \<times> json) list option \<Rightarrow> state \<Rightarrow> response" where
  "response_at e endpoint params st =
     http_get e (requests st) (API_BASE_URL @ endpoint) (params_or_empty params)"

fun is_failure :: "response \<Rightarrow> bool" where
  "is_failure (Parsed data) = False"
| "is_failure _ = True"


text \<open>The value \<open>v\<close> is the parsed body of a response to a request with the key \<open>k\<close>.\<close>

definition fetched :: "env \<Rightarrow> string \<Rightarrow> json \<Rightarrow> bool" where
  "fetched e k v \<longleftrightarrow>
     (\<exists>n endpoint params. k = cache_key e endpoint params \<and>
        http_get e n (API_BASE_URL @ endpoint) (params_or_empty params) = Parsed v)"



section \<open>Concrete records and surroundings\<close>

definition push_up :: json where
  "push_up = JObj [(''id'', JStr ''0662''), (''name'', JStr ''push-up''),
     (''bodyPart'', JStr ''chest''), (''target'', JStr ''pectorals''),
     (''equipment'', JStr ''body weight'')]"

definition dumbbell_fly :: json where
  "dumbbell_fly = JObj [(''id'', JStr ''0308''), (''name'', JStr ''dumbbell fly''),
     (''bodyPart'', JStr ''chest''), (''target'', JStr ''pectorals''),
     (''equipment'', JStr ''Dumbbell'')]"

definition bench_press :: json where
  "bench_press = JObj [(''id'', JStr ''0025''), (''name'', JStr ''barbell bench press''),
     (''bodyPart'', JStr ''chest''), (''target'', JStr ''pectorals''),
     (''equipment'', JStr ''barbell'')]"

text \<open>No tool passes \<^verbatim>\<open>params\<close>, so that \<^verbatim>\<open>json.dumps\<close> only ever sees the empty dict.\<close>

definition dumps_empty :: "(string \<times> json) list \<Rightarrow> string" where
  "dumps_empty d = ''{}''"

text \<open>An upstream whose first response times out and which answers afterwards.\<close>

definition flaky_upstream :: env where
  "flaky_upstream = \<lparr>dumps = dumps_empty,
     http_get = (\<lambda>n url params. if n = 0 then GetRaises ''timed out''
                                else Parsed (JList [push_up]))\<rparr>"

text \<open>An upstream that answers every request with the body \<^verbatim>\<open>null\<close>.\<close>

definition null_upstream :: env where
  "null_upstream = \<lparr>dumps = dumps_empty, http_get = (\<lambda>n url params. Parsed JNull)\<rparr>"

text \<open>An upstream that knows no resource: every response has the status 404.\<close>

definition not_found_upstream :: env where
  "not_found_upstream = \<lparr>dumps = dumps_empty, http_get = (\<lambda>n url params. StatusError 404)\<rparr>"

definition dumbbell_press :: json where
  "dumbbell_press = JObj [(''id'', JStr ''0289''), (''name'', JStr ''dumbbell bench press''),
     (''bodyPart'', JStr ''chest''), (''target'', JStr ''pectorals''),
     (''equipment'', JStr ''dumbbell'')]"

text \<open>An upstream that answers every request with the same four records.\<close>

definition gym_upstream :: env where
  "gym_upstream = \<lparr>dumps = dumps_empty,
     http_get = (\<lambda>n url params.
       Parsed (JList [push_up, dumbbell_fly, bench_press, dumbbell_press]))\<rparr>"

text \<open>
  An upstream that has one chest exercise, for the barbell, and whose search by equipment
  serves this record whatever the equipment asked for.
\<close>

definition loose_upstream :: env where
  "loose_upstream = \<lparr>dumps = dumps_empty,
     http_get = (\<lambda>n url params.
       if url = API_BASE_URL @ ''/exercises/bodyPart/chest'' \<or>
          url = API_BASE_URL @ ''/exercises/equipment/dumbbell''
       then Parsed (JList [bench_press]) else StatusError 404)\<rparr>"

text \<open>Two records without identifier, and an upstream that serves them.\<close>

definition plank :: json where
  "plank = JObj [(''name'', JStr ''plank''), (''equipment'', JStr ''body weight'')]"

definition side_plank :: json where
  "side_plank = JObj [(''name'', JStr ''side plank''), (''equipment'', JStr ''body weight'')]"

definition crunch :: json where
  "crunch = JObj [(''id'', JStr ''0274''), (''name'', JStr ''crunch''),
     (''equipment'', JStr ''body weight'')]"

definition core_upstream :: env where
  "core_upstream = \<lparr>dumps = dumps_empty,
     http_get = (\<lambda>n url params. Parsed (JList [plank, crunch, side_plank, push_up]))\<rparr>"

text \<open>The computation returns a value.\<close>

fun returns :: "py_error + 'a \<Rightarrow> bool" where
  "returns (Inr a) = True"
| "returns (Inl err) = False"




section \<open>Properties of the removal of duplicates\<close>

lemma has_id_iff: "has_id x \<longleftrightarrow> (\<exists>k. exercise_key x = Inr k)"
  by (simp add: has_id_def split: sum.splits)

lemma remove_duplicates_loop_eq:
  "list_all has_id xs \<Longrightarrow>
   remove_duplicates_loop seen acc xs = Inr (acc @ first_occurrences seen xs)"
  by (induction xs arbitrary: seen acc) (auto simp: has_id_iff)

lemma remove_duplicates_limit_loop_eq:
  "list_all has_id xs \<Longrightarrow>
   remove_duplicates_limit_loop n seen acc xs =
     Inr (acc @ take (nat (max 1 (n - int (length acc)))) (first_occurrences seen xs))"
proof (induction xs arbitrary: seen acc)
  case Nil
  then show ?case by simp
next
  case (Cons x xs)
  from Cons.prems obtain k where k: "exercise_key x = Inr k"
    by (auto simp: has_id_iff)
  from Cons.prems have rest: "list_all has_id xs" by simp
  show ?case
  proof (cases "k \<in> seen")
    case True
    then show ?thesis using k Cons.IH [OF rest] by simp
  next
    case False
    show ?thesis
    proof (cases "int (length acc) + 1 \<ge> n")
      case True
      then have "nat (max 1 (n - int (length acc))) = Suc 0" by simp
      then show ?thesis using k False True by simp
    next
      case False
      then have "nat (max 1 (n - int (length acc))) =
                 Suc (nat (max 1 (n - int (length (acc @ [x])))))" by simp
      then show ?thesis
        using k \<open>k \<notin> seen\<close> False Cons.IH [OF rest, of "insert k seen" "acc @ [x]"] by simp
    qed
  qed
qed

lemma first_occurrences_has_id: "y \<in> set (first_occurrences seen xs) \<Longrightarrow> has_id y"
  by (induction xs arbitrary: seen) (auto simp: has_id_iff split: sum.splits if_splits)

lemma first_occurrences_unseen:
  "y \<in> set (first_occurrences seen xs) \<Longrightarrow> exercise_key y = Inr k \<Longrightarrow> k \<notin> seen"
  by (induction xs arbitrary: seen) (auto split: sum.splits if_splits)

lemma first_occurrences_distinct: "distinct (map exercise_key (first_occurrences seen xs))"
proof (induction xs arbitrary: seen)
  case Nil
  then show ?case by simp
next
  case (Cons x xs)
  show ?case
  proof (cases "exercise_key x")
    case (Inl e)
    then show ?thesis using Cons.IH by simp
  next
    case (Inr k)
    have "Inr k \<notin> exercise_key ` set (first_occurrences (insert k seen) xs)"
    proof
      assume "Inr k \<in> exercise_key ` set (first_occurrences (insert k seen) xs)"
      then obtain y where "y \<in> set (first_occurrences (insert k seen) xs)"
        and "exercise_key y = Inr k" by auto
      from first_occurrences_unseen [OF this] show False by simp
    qed
    then show ?thesis using Inr Cons.IH by simp
  qed
qed

lemma first_occurrences_find:
  "y \<in> set (first_occurrences seen xs) \<Longrightarrow>
   find (\<lambda>x. exercise_key x = exercise_key y) xs = Some y"
proof (induction xs arbitrary: seen)
  case Nil
  then show ?case by simp
next
  case (Cons x xs)
  from first_occurrences_has_id [OF Cons.prems] obtain ky where ky: "exercise_key y = Inr ky"
    by (auto simp: has_id_iff)
  show ?case
  proof (cases "exercise_key x")
    case (Inl e)
    then show ?thesis using Cons ky by simp
  next
    case (Inr k)
    show ?thesis
    proof (cases "k \<in> seen")
      case True
      with Inr Cons.prems have y: "y \<in> set (first_occurrences seen xs)" by simp
      from first_occurrences_unseen [OF y ky] True have "ky \<noteq> k" by auto
      then show ?thesis using Inr ky Cons.IH [OF y] by simp
    next
      case False
      show ?thesis
      proof (cases "y = x")
        case True
        then show ?thesis by simp
      next
        case neq: False
        with Inr False Cons.prems have y: "y \<in> set (first_occurrences (insert k seen) xs)"
          by simp
        from first_occurrences_unseen [OF y ky] have "ky \<noteq> k" by auto
        then show ?thesis using Inr ky Cons.IH [OF y] by simp
      qed
    qed
  qed
qed

lemma is_first_position_here:
  assumes "exercise_key x = Inr k"
  shows "is_first_position (ps @ x # xs) (length ps) \<longleftrightarrow> (\<forall>p\<in>set ps. exercise_key p \<noteq> Inr k)"
proof -
  have "is_first_position (ps @ x # xs) (length ps) \<longleftrightarrow>
        (\<forall>j<length ps. exercise_key (ps ! j) \<noteq> Inr k)"
    using assms by (auto simp: is_first_position_def list_all_iff nth_append)
  also have "\<dots> \<longleftrightarrow> (\<forall>p\<in>set ps. exercise_key p \<noteq> Inr k)"
    by (simp add: all_set_conv_all_nth)
  finally show ?thesis .
qed

lemma first_occurrences_positions:
  "list_all has_id (ps @ xs) \<Longrightarrow>
   first_occurrences {k. \<exists>p\<in>set ps. exercise_key p = Inr k} xs =
     map (\<lambda>i. (ps @ xs) ! i)
       (filter (is_first_position (ps @ xs)) [length ps ..< length ps + length xs])"
proof (induction xs arbitrary: ps)
  case Nil
  then show ?case by simp
next
  case (Cons x xs)
  from Cons.prems obtain k where k: "exercise_key x = Inr k"
    by (auto simp: has_id_iff)
  let ?seen = "{k. \<exists>p\<in>set ps. exercise_key p = Inr k}"
  let ?rest = "map (\<lambda>i. (ps @ x # xs) ! i)
       (filter (is_first_position (ps @ x # xs)) [Suc (length ps) ..< Suc (length ps + length xs)])"
  have seen': "{k. \<exists>p\<in>set (ps @ [x]). exercise_key p = Inr k} = insert k ?seen"
    using k by auto
  have upt: "[length ps ..< length ps + length (x # xs)] =
             length ps # [Suc (length ps) ..< Suc (length ps + length xs)]"
    by (simp add: upt_rec)
  have "first_occurrences {k. \<exists>p\<in>set (ps @ [x]). exercise_key p = Inr k} xs =
     map (\<lambda>i. ((ps @ [x]) @ xs) ! i)
       (filter (is_first_position ((ps @ [x]) @ xs))
          [length (ps @ [x]) ..< length (ps @ [x]) + length xs])"
    by (rule Cons.IH) (use Cons.prems in simp)
  then have IH: "first_occurrences (insert k ?seen) xs = ?rest"
    unfolding seen' by (simp del: upt_Suc)
  have here: "(ps @ x # xs) ! length ps = x" by simp
  show ?case
  proof (cases "k \<in> ?seen")
    case True
    then have same: "insert k ?seen = ?seen" by auto
    from True have "\<not> is_first_position (ps @ x # xs) (length ps)"
      by (simp add: is_first_position_here [OF k])
    moreover have "first_occurrences ?seen (x # xs) = first_occurrences ?seen xs"
      using True k by simp
    ultimately show ?thesis
      unfolding upt using IH same by simp
  next
    case False
    then have "is_first_position (ps @ x # xs) (length ps)"
      by (simp add: is_first_position_here [OF k])
    moreover have "first_occurrences ?seen (x # xs) = x # first_occurrences (insert k ?seen) xs"
      using False k by simp
    ultimately show ?thesis
      unfolding upt using IH here by simp
  qed
qed

lemma first_occurrences_first_records:
  "list_all has_id xs \<Longrightarrow> first_occurrences {} xs = first_records xs"
  using first_occurrences_positions [of "[]" xs] by (simp add: first_records_def)


section \<open>Deduplication keeps first occurrences\<close>

lemma remove_duplicates_eq:
  "list_all has_id xs \<Longrightarrow> remove_duplicates xs = Inr (first_records xs)"
  by (simp add: remove_duplicates_def remove_duplicates_loop_eq first_occurrences_first_records)

lemma remove_duplicates_limit_eq:
  "list_all has_id xs \<Longrightarrow>
   remove_duplicates_limit n xs = Inr (take (nat (max 1 n)) (first_records xs))"
  by (simp add: remove_duplicates_limit_def remove_duplicates_limit_loop_eq
        first_occurrences_first_records)

lemma first_records_distinct:
  "list_all has_id xs \<Longrightarrow> distinct (map exercise_key (first_records xs))"
  using first_occurrences_distinct [of "{}" xs] by (simp add: first_occurrences_first_records)

lemma first_records_find:
  "list_all has_id xs \<Longrightarrow> y \<in> set (first_records xs) \<Longrightarrow>
   find (\<lambda>x. exercise_key x = exercise_key y) xs = Some y"
  using first_occurrences_find [of y "{}" xs] by (simp add: first_occurrences_first_records)


lemma first_occurrences_cover:
  "x \<in> set xs \<Longrightarrow> exercise_key x = Inr k \<Longrightarrow>
   k \<in> seen \<or> (\<exists>y\<in>set (first_occurrences seen xs). exercise_key y = Inr k)"
proof (induction xs arbitrary: seen)
  case Nil
  then show ?case by simp
next
  case (Cons a xs)
  show ?case
  proof (cases "x = a")
    case True
    with Cons.prems show ?thesis by auto
  next
    case False
    with Cons.prems have x: "x \<in> set xs" by simp
    show ?thesis
    proof (cases "exercise_key a")
      case (Inl err)
      with Cons.IH [OF x Cons.prems(2), of seen] show ?thesis by simp
    next
      case (Inr ka)
      show ?thesis
      proof (cases "ka \<in> seen")
        case True
        with Inr Cons.IH [OF x Cons.prems(2), of seen] show ?thesis by simp
      next
        case False
        with Inr Cons.IH [OF x Cons.prems(2), of "insert ka seen"] show ?thesis by auto
      qed
    qed
  qed
qed

lemma first_records_cover:
  assumes "list_all has_id xs" and "x \<in> set xs"
  shows "\<exists>y\<in>set (first_records xs). exercise_key y = exercise_key x"
proof -
  from assms obtain k where k: "exercise_key x = Inr k"
    by (auto simp: list_all_iff has_id_iff)
  from first_occurrences_cover [OF assms(2) k, of "{}"] k show ?thesis
    by (simp add: first_occurrences_first_records [OF assms(1)])
qed

text \<open>
  Claim C2. For every list of records that the loops can process (dicts whose identifier,
  if any, is hashable), the deduplication loop returns the records at the positions where
  an identifier occurs for the first time, in the order of the input, and the loop with the
  count returns the first \<^verbatim>\<open>max(1, exercise_count)\<close> of them. In this list no identifier
  occurs twice, every identifier of the input occurs, and each record is the first record
  of the input that bears its identifier.
\<close>

theorem remove_duplicates_first_occurrence:
  assumes "list_all has_id exercises"
  shows "remove_duplicates exercises = Inr (first_records exercises) \<and>
         remove_duplicates_limit exercise_count exercises =
           Inr (take (nat (max 1 exercise_count)) (first_records exercises)) \<and>
         distinct (map exercise_key (first_records exercises)) \<and>
         (\<forall>x\<in>set exercises. \<exists>y\<in>set (first_records exercises).
            exercise_key y = exercise_key x) \<and>
         (\<forall>y\<in>set (first_records exercises).
            find (\<lambda>x. exercise_key x = exercise_key y) exercises = Some y)"
proof (intro conjI ballI)
  from assms show "remove_duplicates exercises = Inr (first_records exercises)"
    by (rule remove_duplicates_eq)
  from assms show "remove_duplicates_limit exercise_count exercises =
           Inr (take (nat (max 1 exercise_count)) (first_records exercises))"
    by (rule remove_duplicates_limit_eq)
  from assms show "distinct (map exercise_key (first_records exercises))"
    by (rule first_records_distinct)
next
  fix x
  assume "x \<in> set exercises"
  with assms show "\<exists>y\<in>set (first_records exercises). exercise_key y = exercise_key x"
    by (rule first_records_cover)
next
  fix y
  assume "y \<in> set (first_records exercises)"
  with assms show "find (\<lambda>x. exercise_key x = exercise_key y) exercises = Some y"
    by (rule first_records_find)
qed

theorem remove_duplicates_first_occurrence_witness:
  "list_all has_id
     [JObj [(''id'', JStr ''0001''), (''name'', JStr ''push-up'')],
      JObj [(''name'', JStr ''plank'')],
      JObj [(''id'', JStr ''0001''), (''name'', JStr ''press'')],
      JObj [(''name'', JStr ''squat'')],
      JObj [(''id'', JStr ''0002''), (''name'', JStr ''crunch'')]] \<and>
   remove_duplicates
     [JObj [(''id'', JStr ''0001''), (''name'', JStr ''push-up'')],
      JObj [(''name'', JStr ''plank'')],
      JObj [(''id'', JStr ''0001''), (''name'', JStr ''press'')],
      JObj [(''name'', JStr ''squat'')],
      JObj [(''id'', JStr ''0002''), (''name'', JStr ''crunch'')]] =
     Inr [JObj [(''id'', JStr ''0001''), (''name'', JStr ''push-up'')],
          JObj [(''name'', JStr ''plank'')],
          JObj [(''id'', JStr ''0002''), (''name'', JStr ''crunch'')]] \<and>
   remove_duplicates_limit 2
     [JObj [(''id'', JStr ''0001''), (''name'', JStr ''push-up'')],
      JObj [(''name'', JStr ''plank'')],
      JObj [(''id'', JStr ''0001''), (''name'', JStr ''press'')],
      JObj [(''name'', JStr ''squat'')],
      JObj [(''id'', JStr ''0002''), (''name'', JStr ''crunch'')]] =
     Inr [JObj [(''id'', JStr ''0001''), (''name'', JStr ''push-up'')],
          JObj [(''name'', JStr ''plank'')]]"
proof -
  let ?exercises =
    "[JObj [(''id'', JStr ''0001''), (''name'', JStr ''push-up'')],
      JObj [(''name'', JStr ''plank'')],
      JObj [(''id'', JStr ''0001''), (''name'', JStr ''press'')],
      JObj [(''name'', JStr ''squat'')],
      JObj [(''id'', JStr ''0002''), (''name'', JStr ''crunch'')]]"
  have h: "list_all has_id ?exercises"
    by (simp add: has_id_def exercise_key_def bind_e_def)
  have f: "first_records ?exercises =
           [JObj [(''id'', JStr ''0001''), (''name'', JStr ''push-up'')],
            JObj [(''name'', JStr ''plank'')],
            JObj [(''id'', JStr ''0002''), (''name'', JStr ''crunch'')]]"
    by code_simp
  have n: "nat (max 1 2) = 2" by simp
  from remove_duplicates_first_occurrence [OF h, of 2]
  have "remove_duplicates ?exercises = Inr (first_records ?exercises)"
    and "remove_duplicates_limit 2 ?exercises =
         Inr (take (nat (max 1 2)) (first_records ?exercises))"
    by (rule conjunct1, rule conjunct1 [OF conjunct2])
  then have "remove_duplicates ?exercises =
               Inr [JObj [(''id'', JStr ''0001''), (''name'', JStr ''push-up'')],
                    JObj [(''name'', JStr ''plank'')],
                    JObj [(''id'', JStr ''0002''), (''name'', JStr ''crunch'')]]"
    and "remove_duplicates_limit 2 ?exercises =
               Inr [JObj [(''id'', JStr ''0001''), (''name'', JStr ''push-up'')],
                    JObj [(''name'', JStr ''plank'')]]"
    by (simp_all only: f n take_Suc_Cons take_0 numeral_2_eq_2)
  with h show ?thesis by (intro conjI)
qed

section \<open>Records without an identifier\<close>

lemma lacks_id_key: "lacks_id x \<Longrightarrow> exercise_key x = Inr JNull"
  by (cases x) (simp_all add: exercise_key_def bind_e_def)

lemma filter_same_key_le_1:
  "distinct (map f xs) \<Longrightarrow> (\<And>x. P x \<Longrightarrow> f x = c) \<Longrightarrow> length (filter P xs) \<le> Suc 0"
proof (induction xs)
  case Nil
  then show ?case by simp
next
  case (Cons x xs)
  show ?case
  proof (cases "P x")
    case True
    with Cons.prems have "c \<notin> f ` set xs" by auto
    with Cons.prems(2) have "filter P xs = []" by (auto simp: filter_empty_conv)
    then show ?thesis by simp
  next
    case False
    with Cons show ?thesis by simp
  qed
qed

section \<open>Properties of the cached fetch\<close>


lemma make_api_request_parsed:
  assumes "\<not> use_cache \<or> cache st (cache_key e endpoint params) = None"
    and "response_at e endpoint params st = Parsed data"
  shows "make_api_request e endpoint params use_cache st =
     (data, st\<lparr>requests := Suc (requests st),
               cache := (if use_cache then (cache st)(cache_key e endpoint params \<mapsto> data)
                         else cache st)\<rparr>)"
  using assms by (auto simp: make_api_request_def response_at_def Let_def)

lemma make_api_request_failure:
  assumes "\<not> use_cache \<or> cache st (cache_key e endpoint params) = None"
    and "is_failure (response_at e endpoint params st)"
  shows "make_api_request e endpoint params use_cache st =
     (JNull, st\<lparr>requests := Suc (requests st),
                printed := printed st @ error_lines (response_at e endpoint params st)\<rparr>)"
  using assms
  by (cases "response_at e endpoint params st")
     (auto simp: make_api_request_def response_at_def Let_def)

lemma error_lines_failure: "is_failure r \<Longrightarrow> error_lines r \<noteq> []"
  by (cases r) (simp_all add: error_lines_def)

lemma make_api_request_cache_cases:
  "cache (snd (make_api_request e endpoint params use_cache st)) = cache st \<or>
   (use_cache \<and> cache st (cache_key e endpoint params) = None \<and>
    response_at e endpoint params st =
      Parsed (fst (make_api_request e endpoint params use_cache st)) \<and>
    cache (snd (make_api_request e endpoint params use_cache st)) =
      (cache st)(cache_key e endpoint params \<mapsto>
        fst (make_api_request e endpoint params use_cache st)))"
proof (cases "use_cache \<and> cache st (cache_key e endpoint params) \<noteq> None")
  case True
  then show ?thesis by (auto simp: make_api_request_def)
next
  case False
  then have miss: "\<not> use_cache \<or> cache st (cache_key e endpoint params) = None" by simp
  show ?thesis
  proof (cases "is_failure (response_at e endpoint params st)")
    case True
    from make_api_request_failure [OF miss True] show ?thesis by simp
  next
    case False
    then obtain data where "response_at e endpoint params st = Parsed data"
      by (cases "response_at e endpoint params st") simp_all
    from make_api_request_parsed [OF miss this] this miss show ?thesis by auto
  qed
qed




lemma make_api_request_fetched:
  assumes "\<And>k v. cache st k = Some v \<Longrightarrow> fetched e k v"
    and "cache (snd (make_api_request e endpoint params use_cache st)) k = Some v"
  shows "fetched e k v"
proof -
  from make_api_request_cache_cases [of e endpoint params use_cache st]
  show ?thesis
  proof
    assume "cache (snd (make_api_request e endpoint params use_cache st)) = cache st"
    with assms show ?thesis by simp
  next
    assume new: "use_cache \<and> cache st (cache_key e endpoint params) = None \<and>
      response_at e endpoint params st =
        Parsed (fst (make_api_request e endpoint params use_cache st)) \<and>
      cache (snd (make_api_request e endpoint params use_cache st)) =
        (cache st)(cache_key e endpoint params \<mapsto>
          fst (make_api_request e endpoint params use_cache st))"
    show ?thesis
    proof (cases "k = cache_key e endpoint params")
      case True
      from new have r: "response_at e endpoint params st =
          Parsed (fst (make_api_request e endpoint params use_cache st))"
        and c: "cache (snd (make_api_request e endpoint params use_cache st)) =
          (cache st)(cache_key e endpoint params \<mapsto>
            fst (make_api_request e endpoint params use_cache st))"
        by blast+
      from assms(2) have "fst (make_api_request e endpoint params use_cache st) = v"
        unfolding c True by simp
      with r have "response_at e endpoint params st = Parsed v" by simp
      with True show ?thesis unfolding fetched_def response_at_def by blast
    next
      case False
      from new have c: "cache (snd (make_api_request e endpoint params use_cache st)) =
          (cache st)(cache_key e endpoint params \<mapsto>
            fst (make_api_request e endpoint params use_cache st))"
        by blast
      from assms(2) False have "cache st k = Some v"
        unfolding c by simp
      then show ?thesis by (rule assms(1))
    qed
  qed
qed

lemma run_requests_fetched:
  "(\<And>k v. cache st k = Some v \<Longrightarrow> fetched e k v) \<Longrightarrow>
   cache (run_requests e calls st) k = Some v \<Longrightarrow> fetched e k v"
proof (induction calls arbitrary: st)
  case Nil
  then show ?case by simp
next
  case (Cons c calls)
  obtain endpoint params use_cache where c: "c = (endpoint, params, use_cache)"
    by (cases c)
  show ?case
  proof (rule Cons.IH [of "snd (make_api_request e endpoint params use_cache st)"])
    fix k' v'
    assume "cache (snd (make_api_request e endpoint params use_cache st)) k' = Some v'"
    with Cons.prems(1) show "fetched e k' v'" by (rule make_api_request_fetched)
  next
    from Cons.prems(2) show
      "cache (run_requests e calls (snd (make_api_request e endpoint params use_cache st))) k =
       Some v"
      by (simp add: c)
  qed
qed

subsection \<open>Overlapping calls\<close>










lemma step_resume_parsed:
  assumes "i < length flights" and "flight_response (flights ! i) = Parsed data"
    and "flight_use_cache (flights ! i)"
  shows "fst (step e (Resume i) (st, flights)) = Some data \<and>
         cache (fst (snd (step e (Resume i) (st, flights)))) (flight_key (flights ! i)) = Some data"
  using assms by (simp add: finish_request_def)






text \<open>
  Claim C4. On a miss, when \<^verbatim>\<open>client.get\<close> raises, the status is not a success or the body
  does not parse, \<^verbatim>\<open>make_api_request\<close> returns \<^verbatim>\<open>None\<close>, has printed at least one line, and
  leaves the cache as it was.
\<close>

theorem failed_fetch_returns_none:
  assumes "\<not> use_cache \<or> cache st (cache_key e endpoint params) = None"
    and "is_failure (response_at e endpoint params st)"
  shows "fst (make_api_request e endpoint params use_cache st) = JNull \<and>
         cache (snd (make_api_request e endpoint params use_cache st)) = cache st \<and>
         printed (snd (make_api_request e endpoint params use_cache st)) =
           printed st @ error_lines (response_at e endpoint params st) \<and>
         error_lines (response_at e endpoint params st) \<noteq> []"
  using make_api_request_failure [OF assms] error_lines_failure [OF assms(2)] by simp

theorem failed_fetch_returns_none_witness:
  "cache initial_state (cache_key not_found_upstream ''/exercises/exercise/9999'' None) = None \<and>
   is_failure (response_at not_found_upstream ''/exercises/exercise/9999'' None initial_state) \<and>
   fst (make_api_request not_found_upstream ''/exercises/exercise/9999'' None True initial_state) =
     JNull \<and>
   cache (snd (make_api_request not_found_upstream ''/exercises/exercise/9999'' None True
                 initial_state)) = cache initial_state \<and>
   printed (snd (make_api_request not_found_upstream ''/exercises/exercise/9999'' None True
                   initial_state)) = [''HTTP error occurred: 404'']"
proof -
  have h1: "cache initial_state (cache_key not_found_upstream ''/exercises/exercise/9999'' None) = None"
    by (simp add: initial_state_def)
  have h2: "is_failure (response_at not_found_upstream ''/exercises/exercise/9999'' None initial_state)"
    by (simp add: response_at_def not_found_upstream_def)
  have l: "error_lines (response_at not_found_upstream ''/exercises/exercise/9999'' None initial_state)
           = [''HTTP error occurred: 404'']"
    by (simp add: response_at_def not_found_upstream_def error_lines_def str_of_int_def
          str_of_nat.simps [of 404] str_of_nat.simps [of 40] str_of_nat.simps [of 4] digit_char_def)
  from failed_fetch_returns_none [of True, OF _ h2] h1 h2 l show ?thesis
    by (simp add: initial_state_def)
qed

text \<open>
  Claim C8, as stated: \<^verbatim>\<open>None\<close> is never inserted into the cache. A response with the body
  \<^verbatim>\<open>null\<close> is parsed to \<^verbatim>\<open>None\<close>, which is stored.
\<close>

theorem null_body_counterexample:
  "cache (snd (make_api_request null_upstream ''/exercises/exercise/0001'' None True initial_state))
     (cache_key null_upstream ''/exercises/exercise/0001'' None) = Some JNull"
  by (simp add: make_api_request_def null_upstream_def initial_state_def Let_def)


text \<open>
  Claim C8, amended. A call changes the cache only when it has \<^verbatim>\<open>use_cache\<close>, misses, and
  its response is parsed: it then adds the parsed value under its key. So every entry of
  the cache of a process is the parsed body of a response to a request with its key, and
  after a failed fetch, which leaves the cache as it was, the next call with the same
  endpoint and parameters fetches again and, if the response is parsed, returns and
  caches its value.
\<close>

theorem cache_holds_fetched_payloads:
  "(cache (snd (make_api_request e endpoint params use_cache st)) = cache st \<or>
    (use_cache \<and> cache st (cache_key e endpoint params) = None \<and>
     response_at e endpoint params st =
       Parsed (fst (make_api_request e endpoint params use_cache st)) \<and>
     cache (snd (make_api_request e endpoint params use_cache st)) =
       (cache st)(cache_key e endpoint params \<mapsto>
         fst (make_api_request e endpoint params use_cache st)))) \<and>
   (\<forall>k v. cache (run_requests e calls initial_state) k = Some v \<longrightarrow> fetched e k v) \<and>
   (cache st (cache_key e endpoint params) = None \<and>
    is_failure (response_at e endpoint params st) \<and>
    response_at e endpoint params (snd (make_api_request e endpoint params True st)) =
      Parsed data \<longrightarrow>
      cache (snd (make_api_request e endpoint params True st)) = cache st \<and>
      fst (make_api_request e endpoint params True
             (snd (make_api_request e endpoint params True st))) = data \<and>
      cache (snd (make_api_request e endpoint params True
                    (snd (make_api_request e endpoint params True st))))
        (cache_key e endpoint params) = Some data)"
proof -
  have inv: "fetched e k v" if "cache (run_requests e calls initial_state) k = Some v" for k v
    by (rule run_requests_fetched [OF _ that]) (simp add: initial_state_def)
  have again: "cache (snd (make_api_request e endpoint params True st)) = cache st \<and>
      fst (make_api_request e endpoint params True
             (snd (make_api_request e endpoint params True st))) = data \<and>
      cache (snd (make_api_request e endpoint params True
                    (snd (make_api_request e endpoint params True st))))
        (cache_key e endpoint params) = Some data"
    if miss: "cache st (cache_key e endpoint params) = None"
      and fail: "is_failure (response_at e endpoint params st)"
      and ok: "response_at e endpoint params (snd (make_api_request e endpoint params True st)) =
               Parsed data"
  proof -
    let ?st1 = "snd (make_api_request e endpoint params True st)"
    from make_api_request_failure [OF _ fail, of True] miss
    have c1: "cache ?st1 = cache st" by simp
    with miss have miss1: "cache ?st1 (cache_key e endpoint params) = None" by simp
    from make_api_request_parsed [OF _ ok, of True] miss1 c1 show ?thesis by simp
  qed
  from make_api_request_cache_cases [of e endpoint params use_cache st] inv again
  show ?thesis by blast
qed

theorem cache_holds_fetched_payloads_witness:
  "cache (snd (make_api_request flaky_upstream ''/exercises'' None True initial_state)) =
     cache initial_state \<and>
   fst (make_api_request flaky_upstream ''/exercises'' None True
          (snd (make_api_request flaky_upstream ''/exercises'' None True initial_state))) =
     JList [push_up] \<and>
   cache (snd (make_api_request flaky_upstream ''/exercises'' None True
                 (snd (make_api_request flaky_upstream ''/exercises'' None True initial_state))))
     (cache_key flaky_upstream ''/exercises'' None) = Some (JList [push_up]) \<and>
   cache (run_requests flaky_upstream
            [(''/exercises'', None, True), (''/exercises'', None, True)] initial_state)
     (cache_key flaky_upstream ''/exercises'' None) = Some (JList [push_up]) \<and>
   fetched flaky_upstream (cache_key flaky_upstream ''/exercises'' None) (JList [push_up])"
proof -
  have h1: "cache initial_state (cache_key flaky_upstream ''/exercises'' None) = None"
    by (simp add: initial_state_def)
  have h2: "is_failure (response_at flaky_upstream ''/exercises'' None initial_state)"
    by (simp add: response_at_def flaky_upstream_def initial_state_def)
  have h3: "response_at flaky_upstream ''/exercises'' None
              (snd (make_api_request flaky_upstream ''/exercises'' None True initial_state)) =
            Parsed (JList [push_up])"
    by (simp add: response_at_def make_api_request_def flaky_upstream_def initial_state_def
          Let_def)
  have r: "cache (run_requests flaky_upstream
            [(''/exercises'', None, True), (''/exercises'', None, True)] initial_state)
     (cache_key flaky_upstream ''/exercises'' None) = Some (JList [push_up])"
    by (simp add: make_api_request_def flaky_upstream_def initial_state_def Let_def)
  note inst = cache_holds_fetched_payloads
    [of flaky_upstream "''/exercises''" None True initial_state
        "[(''/exercises'', None, True), (''/exercises'', None, True)]" "JList [push_up]"]
  from inst r have f: "fetched flaky_upstream (cache_key flaky_upstream ''/exercises'' None)
                        (JList [push_up])"
    by blast
  from inst h1 h2 h3 r f show ?thesis by blast
qed

section \<open>Properties of the tools and of the formatting helpers\<close>

text \<open>
  Claim C5. When the fetch for an identifier yields nothing (\<^verbatim>\<open>None\<close> after a failure, as
  for an unknown identifier, or an empty payload), \<^verbatim>\<open>get_exercise_by_id\<close> returns its message
  and raises nothing; \<^verbatim>\<open>format_exercise_detail\<close> answers an empty record with its own message.
\<close>

theorem unknown_exercise_message:
  "(\<not> truthy (fst (make_api_request e (''/exercises/exercise/'' @ exercise_id) None True st)) \<longrightarrow>
      fst (get_exercise_by_id e exercise_id st) =
        Inr (cross_mark @ '' Unable to fetch exercise with ID: '' @ exercise_id @
             ''. Please verify the ID is correct.'')) \<and>
   (cache st (cache_key e (''/exercises/exercise/'' @ exercise_id) None) = None \<and>
    is_failure (response_at e (''/exercises/exercise/'' @ exercise_id) None st) \<longrightarrow>
      fst (get_exercise_by_id e exercise_id st) =
        Inr (cross_mark @ '' Unable to fetch exercise with ID: '' @ exercise_id @
             ''. Please verify the ID is correct.'')) \<and>
   (\<not> truthy exercise \<longrightarrow> format_exercise_detail exercise = Inr ''Exercise not found.'')"
proof -
  have a: "fst (get_exercise_by_id e exercise_id st) = Inr (fetch_failed exercise_id)"
    if "\<not> truthy (fst (make_api_request e (''/exercises/exercise/'' @ exercise_id) None True st))"
    using that by (simp add: get_exercise_by_id_def split_beta)
  have b: "\<not> truthy (fst (make_api_request e (''/exercises/exercise/'' @ exercise_id) None True st))"
    if "cache st (cache_key e (''/exercises/exercise/'' @ exercise_id) None) = None"
      and "is_failure (response_at e (''/exercises/exercise/'' @ exercise_id) None st)"
    using make_api_request_failure [OF _ that(2), of True] that(1) by simp
  from a b show ?thesis
    by (auto simp: fetch_failed_def format_exercise_detail_def)
qed

theorem unknown_exercise_message_witness:
  "cache initial_state (cache_key not_found_upstream (''/exercises/exercise/'' @ ''9999'') None) = None \<and>
   is_failure (response_at not_found_upstream (''/exercises/exercise/'' @ ''9999'') None initial_state) \<and>
   fst (get_exercise_by_id not_found_upstream ''9999'' initial_state) =
     Inr (cross_mark @ '' Unable to fetch exercise with ID: 9999. Please verify the ID is correct.'') \<and>
   \<not> truthy (JObj []) \<and>
   format_exercise_detail (JObj []) = Inr ''Exercise not found.''"
proof -
  have h1: "cache initial_state
              (cache_key not_found_upstream (''/exercises/exercise/'' @ ''9999'') None) = None"
    by (simp add: initial_state_def)
  have h2: "is_failure (response_at not_found_upstream (''/exercises/exercise/'' @ ''9999'') None
                          initial_state)"
    by (simp add: response_at_def not_found_upstream_def)
  from unknown_exercise_message [of not_found_upstream "''9999''" initial_state "JObj []"] h1 h2
  show ?thesis by simp
qed

text \<open>
  Claim C7. The three formatting helpers read nothing but their arguments (no global, no
  clock, no random number), so that each is a function of its arguments: two renderings
  with the same arguments are the same text, or the same exception.
\<close>

theorem formatters_deterministic:
  "format_exercise_list exercises limit show_gif = format_exercise_list exercises limit show_gif \<and>
   format_exercise_detail exercise = format_exercise_detail exercise \<and>
   format_workout_plan exercises workout_type equipment duration =
     format_workout_plan exercises workout_type equipment duration"
  by simp

section \<open>Properties of \<^verbatim>\<open>format_exercise_list\<close>\<close>

lemma bind_e_Inr [simp]: "bind_e (Inr a) f = f a"
  by (simp add: bind_e_def)

lemma bind_e_Inl [simp]: "bind_e (Inl err) f = Inl err"
  by (simp add: bind_e_def)

lemma bind_e_eq_Inr:
  "bind_e m f = Inr b \<longleftrightarrow> (\<exists>a. m = Inr a \<and> f a = Inr b)"
  by (cases m) simp_all

lemma get_str_record: "\<exists>s. get_str (JObj d) k dflt = Inr s"
  by (simp add: get_str_def)

lemma get_title_record:
  "field_is is_str d k \<Longrightarrow> \<exists>s. get_title (JObj d) k = Inr s"
  by (cases "map_of d k"; cases "the (map_of d k)")
     (simp_all add: get_title_def field_is_def)

lemma gif_section_record: "\<exists>s. gif_section label (JObj d) = Inr s"
  by (simp add: gif_section_def)

lemma instructions_preview_record:
  assumes "field_is is_str_list d ''instructions''"
  shows "\<exists>v. instructions_preview (JObj d) = Inr v"
proof (cases "map_of d ''instructions''")
  case None
  then show ?thesis by (simp add: instructions_preview_def)
next
  case (Some v)
  with assms obtain xs where v: "v = JList xs" and xs: "list_all is_str xs"
    by (cases v) (simp_all add: field_is_def)
  show ?thesis
  proof (cases xs)
    case Nil
    with Some v show ?thesis by (simp add: instructions_preview_def)
  next
    case (Cons x rest)
    with xs obtain s where "x = JStr s" by (cases x) simp_all
    with Some v Cons show ?thesis by (simp add: instructions_preview_def)
  qed
qed

lemma strip_keeps_prefix:
  assumes "\<not> is_space a" and "c \<in> set rest" and "\<not> is_space c"
  shows "py_strip (nl @ a # p @ rest) = a # p @ rev (dropWhile is_space (rev rest))"
proof -
  have "dropWhile is_space (nl @ a # p @ rest) = a # p @ rest"
    using assms(1) by (simp add: nl_def is_space_def)
  moreover have "dropWhile is_space (rev rest @ rev p @ [a]) =
                 dropWhile is_space (rev rest) @ rev p @ [a]"
    using assms(2,3) by (intro dropWhile_append1 [of c]) simp_all
  ultimately show ?thesis by (simp add: py_strip_def)
qed

lemma format_exercise_record:
  assumes "exercise_record ex"
  shows "\<exists>t. format_exercise show_gif i ex = Inr t \<and> prefix (''**'' @ str_of_nat i @ ''. '') t"
proof -
  from assms obtain d where ex: "ex = JObj d" by (cases ex) simp_all
  from assms ex have f: "field_is is_str d ''bodyPart''" "field_is is_str d ''target''"
    "field_is is_str d ''equipment''" "field_is is_str_list d ''instructions''"
    by simp_all
  have "\<exists>gif. (if show_gif then gif_section (nl @ ''- **Visual Guide (GIF):** '') ex
             else Inr []) = Inr gif"
    using gif_section_record [of "nl @ ''- **Visual Guide (GIF):** ''" d] ex
    by (cases show_gif) simp_all
  then obtain gif where gif: "(if show_gif then gif_section (nl @ ''- **Visual Guide (GIF):** '') ex
             else Inr []) = Inr gif" ..
  obtain name where name: "get_str ex ''name'' (JStr ''Unknown Exercise'') = Inr name"
    using get_str_record ex by blast
  obtain ident where ident: "get_str ex ''id'' (JStr ''N/A'') = Inr ident"
    using get_str_record ex by blast
  obtain body_part where body_part: "get_title ex ''bodyPart'' = Inr body_part"
    using get_title_record [OF f(1)] ex by blast
  obtain target where target: "get_title ex ''target'' = Inr target"
    using get_title_record [OF f(2)] ex by blast
  obtain equipment where equipment: "get_title ex ''equipment'' = Inr equipment"
    using get_title_record [OF f(3)] ex by blast
  obtain instructions where instructions: "instructions_preview ex = Inr instructions"
    using instructions_preview_record [OF f(4)] ex by blast
  let ?rest = "name @ ''**'' @ nl @ ''- **ID:** '' @ ident @
        nl @ ''- **Body Part:** '' @ body_part @
        nl @ ''- **Target Muscle:** '' @ target @
        nl @ ''- **Equipment:** '' @ equipment @
        nl @ ''- **Instructions:** '' @ py_str instructions @ gif @ nl"
  have eq: "format_exercise show_gif i ex =
        Inr (py_strip (nl @ CHR ''*'' # (''*'' @ str_of_nat i @ ''. '') @ ?rest))"
    unfolding format_exercise_def gif name ident body_part target equipment instructions
    by simp
  have "py_strip (nl @ CHR ''*'' # (''*'' @ str_of_nat i @ ''. '') @ ?rest) =
        CHR ''*'' # (''*'' @ str_of_nat i @ ''. '') @ rev (dropWhile is_space (rev ?rest))"
    by (rule strip_keeps_prefix [of _ "CHR ''*''"]) (simp_all add: is_space_def)
  with eq show ?thesis by (simp add: prefix_def)
qed

lemma format_exercises_record:
  "list_all exercise_record xs \<Longrightarrow>
   \<exists>ts. format_exercises show_gif i xs = Inr ts \<and> length ts = length xs \<and>
        (\<forall>j<length xs. format_exercise show_gif (i + j) (xs ! j) = Inr (ts ! j) \<and>
                        prefix (''**'' @ str_of_nat (i + j) @ ''. '') (ts ! j))"
proof (induction xs arbitrary: i)
  case Nil
  then show ?case by simp
next
  case (Cons x xs)
  from Cons.prems have "exercise_record x" and rest: "list_all exercise_record xs" by simp_all
  from format_exercise_record [OF this(1)] obtain t
    where t: "format_exercise show_gif i x = Inr t" "prefix (''**'' @ str_of_nat i @ ''. '') t"
    by blast
  from Cons.IH [OF rest, of "Suc i"] obtain ts
    where ts: "format_exercises show_gif (Suc i) xs = Inr ts" "length ts = length xs"
      "\<forall>j<length xs. format_exercise show_gif (Suc i + j) (xs ! j) = Inr (ts ! j) \<and>
                      prefix (''**'' @ str_of_nat (Suc i + j) @ ''. '') (ts ! j)"
    by blast
  have "format_exercise show_gif (i + j) ((x # xs) ! j) = Inr ((t # ts) ! j) \<and>
        prefix (''**'' @ str_of_nat (i + j) @ ''. '') ((t # ts) ! j)"
    if "j < length (x # xs)" for j
    using that t ts(3) by (cases j) simp_all
  with t(1) ts(1,2) show ?case by auto
qed

text \<open>
  Claim C9. For an empty list \<^verbatim>\<open>format_exercise_list\<close> returns exactly
  \<^verbatim>\<open>No exercises found.\<close>; for a non-empty list of exercise records and a positive limit it
  returns the entries of the first \<open>min limit (length exercises)\<close> records, entry \<open>j\<close>
  being the rendering of record \<open>j\<close> with the number \<open>j + 1\<close> and starting with that
  number, joined by blank lines, followed by the line about the \<open>length exercises - limit\<close>
  further exercises if and only if the list is longer than the limit.
\<close>

theorem format_exercise_list_entries:
  "format_exercise_list [] limit show_gif = Inr ''No exercises found.'' \<and>
   (exercises \<noteq> [] \<and> 0 < limit \<and> list_all exercise_record exercises \<longrightarrow>
      (\<exists>entries.
         length entries = min (nat limit) (length exercises) \<and>
         (\<forall>j<length entries.
            format_exercise show_gif (Suc j) (exercises ! j) = Inr (entries ! j) \<and>
            prefix (''**'' @ str_of_nat (Suc j) @ ''. '') (entries ! j)) \<and>
         format_exercise_list exercises limit show_gif =
           Inr (py_join (nl @ nl) entries @
                (if int (length exercises) > limit
                 then nl @ nl @ ''... and '' @ str_of_int (int (length exercises) - limit) @
                      '' more exercises available. Use specific filters to narrow down results.''
                 else []))))"
proof (intro conjI impI)
  show "format_exercise_list [] limit show_gif = Inr ''No exercises found.''"
    by (simp add: format_exercise_list_def)
next
  assume "exercises \<noteq> [] \<and> 0 < limit \<and> list_all exercise_record exercises"
  then have ne: "exercises \<noteq> []" and pos: "0 < limit"
    and recs: "list_all exercise_record exercises"
    by simp_all
  from pos have sl: "slice_to limit exercises = take (nat limit) exercises"
    by (simp add: slice_to_def)
  from recs have "list_all exercise_record (take (nat limit) exercises)"
    by (auto simp: list_all_iff dest: in_set_takeD)
  from format_exercises_record [OF this, of show_gif 1] obtain ts
    where ts: "format_exercises show_gif 1 (take (nat limit) exercises) = Inr ts"
      "length ts = length (take (nat limit) exercises)"
      "\<forall>j<length (take (nat limit) exercises).
         format_exercise show_gif (1 + j) (take (nat limit) exercises ! j) = Inr (ts ! j) \<and>
         prefix (''**'' @ str_of_nat (1 + j) @ ''. '') (ts ! j)"
    by blast
  from ts(2) have len: "length ts = min (nat limit) (length exercises)"
    by (simp add: min.commute)
  have entry: "format_exercise show_gif (Suc j) (exercises ! j) = Inr (ts ! j) \<and>
        prefix (''**'' @ str_of_nat (Suc j) @ ''. '') (ts ! j)" if "j < length ts" for j
    using ts(3) that ts(2) by simp
  have rendered: "format_exercise_list exercises limit show_gif =
         Inr (py_join (nl @ nl) ts @
              (if int (length exercises) > limit
               then nl @ nl @ ''... and '' @ str_of_int (int (length exercises) - limit) @
                    '' more exercises available. Use specific filters to narrow down results.''
               else []))"
    using ne ts(1) by (simp add: format_exercise_list_def sl more_available_def)
  show "\<exists>entries.
         length entries = min (nat limit) (length exercises) \<and>
         (\<forall>j<length entries.
            format_exercise show_gif (Suc j) (exercises ! j) = Inr (entries ! j) \<and>
            prefix (''**'' @ str_of_nat (Suc j) @ ''. '') (entries ! j)) \<and>
         format_exercise_list exercises limit show_gif =
           Inr (py_join (nl @ nl) entries @
                (if int (length exercises) > limit
                 then nl @ nl @ ''... and '' @ str_of_int (int (length exercises) - limit) @
                      '' more exercises available. Use specific filters to narrow down results.''
                 else []))"
    using len entry rendered by blast
qed

theorem format_exercise_list_entries_witness:
  "[push_up, dumbbell_fly, bench_press] \<noteq> [] \<and> (0::int) < 2 \<and>
   list_all exercise_record [push_up, dumbbell_fly, bench_press] \<and>
   (\<exists>entries.
      length entries = 2 \<and>
      format_exercise_list [push_up, dumbbell_fly, bench_press] 2 True =
        Inr (py_join (nl @ nl) entries @ nl @ nl @
             ''... and 1 more exercises available. Use specific filters to narrow down results.''))"
proof -
  have h: "list_all exercise_record [push_up, dumbbell_fly, bench_press]"
    by (simp add: push_up_def dumbbell_fly_def bench_press_def field_is_def)
  have one: "str_of_int 1 = ''1''"
    by code_simp
  have c: "[push_up, dumbbell_fly, bench_press] \<noteq> [] \<and> (0::int) < 2 \<and>
           list_all exercise_record [push_up, dumbbell_fly, bench_press]"
    using h by simp
  from format_exercise_list_entries [of 2 True "[push_up, dumbbell_fly, bench_press]"] c
  obtain entries
    where e: "length entries = min (nat 2) (length [push_up, dumbbell_fly, bench_press])"
      and r: "format_exercise_list [push_up, dumbbell_fly, bench_press] 2 True =
        Inr (py_join (nl @ nl) entries @
             (if int (length [push_up, dumbbell_fly, bench_press]) > 2
              then nl @ nl @ ''... and '' @
                   str_of_int (int (length [push_up, dumbbell_fly, bench_press]) - 2) @
                   '' more exercises available. Use specific filters to narrow down results.''
              else []))"
    by blast
  from e have e': "length entries = 2" by simp
  from r one have r': "format_exercise_list [push_up, dumbbell_fly, bench_press] 2 True =
        Inr (py_join (nl @ nl) entries @ nl @ nl @
             ''... and 1 more exercises available. Use specific filters to narrow down results.'')"
    by simp
  from h e' r' show ?thesis by (intro conjI exI [of _ entries]) simp_all
qed

section \<open>Properties of the selection by equipment\<close>

lemma set_slice_to: "set (slice_to n xs) \<subseteq> set xs"
  by (auto simp: slice_to_def dest: in_set_takeD)

lemma length_slice_to: "0 \<le> n \<Longrightarrow> length (slice_to n xs) \<le> nat n"
  by (simp add: slice_to_def)

lemma equipment_matches_contains:
  assumes "equipment_matches equipment ex = Inr True"
  shows "equipment_contains equipment ex"
proof -
  from assms obtain s where s: "get_lower ex ''equipment'' = Inr s"
    and sub: "sublist (py_lower equipment) s"
    by (auto simp: equipment_matches_def bind_e_eq_Inr)
  from s obtain v where v: "py_get ex ''equipment'' (JStr []) = Inr v"
    and c: "(case v of JStr s' \<Rightarrow> Inr (py_lower s') | _ \<Rightarrow> Inl AttributeError) = Inr s"
    by (auto simp: get_lower_def bind_e_eq_Inr)
  from c obtain s' where "v = JStr s'" and "s = py_lower s'"
    by (cases v) simp_all
  with v sub show ?thesis by (simp add: equipment_contains_def)
qed

lemma equipment_filter_contains:
  "equipment_filter equipment xs = Inr ys \<Longrightarrow> list_all (equipment_contains equipment) ys"
proof (induction xs arbitrary: ys)
  case Nil
  then show ?case by simp
next
  case (Cons x xs)
  from Cons.prems obtain keep kept
    where keep: "equipment_matches equipment x = Inr keep"
      and kept: "equipment_filter equipment xs = Inr kept"
      and ys: "ys = (if keep then x # kept else kept)"
    by (auto simp: bind_e_eq_Inr)
  from Cons.IH [OF kept] keep ys show ?case
    by (auto dest: equipment_matches_contains)
qed

lemma in_set_slice_toD: "x \<in> set (slice_to n xs) \<Longrightarrow> x \<in> set xs"
  using set_slice_to [of n xs] by blast

lemma py_slice_iter_subset:
  "py_iter data = Inr xs \<Longrightarrow> bind_e (py_slice_to data n) py_iter = Inr sel \<Longrightarrow>
   set sel \<subseteq> set xs"
  by (cases data) (auto simp: bind_e_eq_Inr dest!: in_set_slice_toD)

lemma select_exercises_contains:
  assumes "specific_equipment equipment"
    and "select_exercises equipment data n = Inr sel"
  shows "list_all (equipment_contains equipment) sel"
proof (cases "truthy data")
  case False
  with assms(2) show ?thesis by (simp add: select_exercises_def)
next
  case True
  with assms obtain xs ys
    where "py_iter data = Inr xs" and ys: "equipment_filter equipment xs = Inr ys"
      and sel: "bind_e (py_slice_to (JList ys) n) py_iter = Inr sel"
    by (auto simp: select_exercises_def bind_e_eq_Inr)
  from sel have "set sel \<subseteq> set ys"
    by (rule py_slice_iter_subset [rotated]) simp
  with equipment_filter_contains [OF ys] show ?thesis
    by (auto simp: list_all_iff)
qed

lemma select_exercises_unfiltered:
  "\<not> specific_equipment equipment \<Longrightarrow>
   select_exercises equipment data n =
     (if truthy data then bind_e (py_slice_to data n) py_iter else Inr [])"
  by (simp add: select_exercises_def)

lemma select_legs_contains:
  assumes "specific_equipment equipment"
    and "select_legs equipment upper_legs lower_legs n = Inr sel"
  shows "list_all (equipment_contains equipment) sel"
proof -
  from assms(2) obtain upper lower
    where sel: "(let combined_data = upper @ lower in
       if combined_data \<noteq> []
       then bind_e (if specific_equipment equipment
                    then equipment_filter equipment combined_data else Inr combined_data)
              (\<lambda>filtered. Inr (slice_to n filtered))
       else Inr []) = Inr sel"
    by (auto simp: select_legs_def bind_e_eq_Inr)
  show ?thesis
  proof (cases "upper @ lower = []")
    case True
    with sel show ?thesis by simp
  next
    case False
    with sel assms(1) obtain ys
      where ys: "equipment_filter equipment (upper @ lower) = Inr ys"
        and "sel = slice_to n ys"
      by (auto simp: Let_def bind_e_eq_Inr)
    with equipment_filter_contains [OF ys] set_slice_to [of n ys] show ?thesis
      by (auto simp: list_all_iff)
  qed
qed

lemma select_legs_unfiltered:
  "\<not> specific_equipment equipment \<Longrightarrow>
   select_legs equipment upper_legs lower_legs n =
     bind_e (if truthy upper_legs then py_iter upper_legs else Inr []) (\<lambda>upper.
     bind_e (if truthy lower_legs then py_iter lower_legs else Inr []) (\<lambda>lower.
     Inr (slice_to n (upper @ lower))))"
  by (auto simp: select_legs_def Let_def slice_to_def intro!: arg_cong2 [where f = bind_e] ext)

lemma fst_bind_s_Inr:
  "fst (bind_s r f) = Inr b \<longleftrightarrow> (\<exists>a st. r = (Inr a, st) \<and> fst (f a st) = Inr b)"
  by (cases r; cases "fst r") (auto simp: bind_s_def)

lemma fetch_selection_contains:
  assumes "specific_equipment equipment"
    and "fst (fetch_selection e endpoint equipment n st) = Inr sel"
  shows "list_all (equipment_contains equipment) sel"
  using assms select_exercises_contains
  by (auto simp: fetch_selection_def split_beta)

lemma fetch_body_parts_contains:
  assumes "specific_equipment equipment"
  shows "list_all (equipment_contains equipment) exercises \<Longrightarrow>
         fst (fetch_body_parts e equipment n body_parts exercises st) = Inr sel \<Longrightarrow>
         list_all (equipment_contains equipment) sel"
proof (induction body_parts arbitrary: exercises st)
  case Nil
  then show ?case by simp
next
  case (Cons body_part body_parts)
  from Cons.prems(2) obtain selected st'
    where s: "fetch_selection e (''/exercises/bodyPart/'' @ body_part) equipment n st =
              (Inr selected, st')"
      and r: "fst (fetch_body_parts e equipment n body_parts (exercises @ selected) st') = Inr sel"
    by (auto simp: fst_bind_s_Inr)
  from s have "fst (fetch_selection e (''/exercises/bodyPart/'' @ body_part) equipment n st) =
               Inr selected" by simp
  from fetch_selection_contains [OF assms this] Cons.prems(1)
  have "list_all (equipment_contains equipment) (exercises @ selected)" by simp
  from Cons.IH [OF this r] show ?case .
qed

lemma remove_duplicates_loop_subset:
  "remove_duplicates_loop seen acc xs = Inr r \<Longrightarrow> set r \<subseteq> set acc \<union> set xs"
proof (induction xs arbitrary: seen acc)
  case Nil
  then show ?case by simp
next
  case (Cons x xs)
  from Cons.prems obtain k where k: "exercise_key x = Inr k"
    by (cases "exercise_key x") simp_all
  show ?case
  proof (cases "k \<in> seen")
    case True
    with k Cons.prems Cons.IH [of seen acc] show ?thesis by auto
  next
    case False
    with k Cons.prems Cons.IH [of "insert k seen" "acc @ [x]"] show ?thesis by auto
  qed
qed

lemma remove_duplicates_limit_loop_subset:
  "remove_duplicates_limit_loop n seen acc xs = Inr r \<Longrightarrow> set r \<subseteq> set acc \<union> set xs"
proof (induction xs arbitrary: seen acc)
  case Nil
  then show ?case by simp
next
  case (Cons x xs)
  from Cons.prems obtain k where k: "exercise_key x = Inr k"
    by (cases "exercise_key x") simp_all
  show ?case
  proof (cases "k \<in> seen")
    case True
    with k Cons.prems Cons.IH [of seen acc] show ?thesis by auto
  next
    case False
    show ?thesis
    proof (cases "n \<le> int (length acc) + 1")
      case True
      with k False Cons.prems show ?thesis by auto
    next
      case stop: False
      with k False Cons.prems Cons.IH [of "insert k seen" "acc @ [x]"] show ?thesis by auto
    qed
  qed
qed

lemma remove_duplicates_limit_loop_length:
  "remove_duplicates_limit_loop n seen acc xs = Inr r \<Longrightarrow>
   length r \<le> max (Suc (length acc)) (nat (max 1 n))"
proof (induction xs arbitrary: seen acc)
  case Nil
  then show ?case by simp
next
  case (Cons x xs)
  from Cons.prems obtain k where k: "exercise_key x = Inr k"
    by (cases "exercise_key x") simp_all
  show ?case
  proof (cases "k \<in> seen")
    case True
    with k Cons.prems Cons.IH [of seen acc] show ?thesis by auto
  next
    case False
    show ?thesis
    proof (cases "n \<le> int (length acc) + 1")
      case True
      with k False Cons.prems have "r = acc @ [x]" by auto
      then show ?thesis by auto
    next
      case stop: False
      with k False Cons.prems Cons.IH [of "insert k seen" "acc @ [x]"]
      have "length r \<le> max (Suc (length (acc @ [x]))) (nat (max 1 n))" by auto
      with stop show ?thesis by auto
    qed
  qed
qed

lemma remove_duplicates_contains:
  "remove_duplicates xs = Inr r \<Longrightarrow> list_all P xs \<Longrightarrow> list_all P r"
  using remove_duplicates_loop_subset [of "{}" "[]" xs r]
  by (auto simp: remove_duplicates_def list_all_iff)

lemma remove_duplicates_limit_contains:
  "remove_duplicates_limit n xs = Inr r \<Longrightarrow> list_all P xs \<Longrightarrow> list_all P r"
  using remove_duplicates_limit_loop_subset [of n "{}" "[]" xs r]
  by (auto simp: remove_duplicates_limit_def list_all_iff)

lemma remove_duplicates_limit_length:
  "remove_duplicates_limit n xs = Inr r \<Longrightarrow> length r \<le> nat (max 1 n)"
  using remove_duplicates_limit_loop_length [of n "{}" "[]" xs r]
  by (simp add: remove_duplicates_limit_def)

lemma fetch_body_parts_selected:
  "specific_equipment equipment \<Longrightarrow>
   fetch_body_parts e equipment n body_parts [] st = (Inr sel, st') \<Longrightarrow>
   list_all (equipment_contains equipment) sel"
  by (rule fetch_body_parts_contains [of equipment "[]" e n body_parts st]) simp_all

lemma fetch_selection_selected:
  "specific_equipment equipment \<Longrightarrow>
   fetch_selection e endpoint equipment n st = (Inr sel, st') \<Longrightarrow>
   list_all (equipment_contains equipment) sel"
  by (rule fetch_selection_contains [of equipment e endpoint n st]) simp_all

lemma target_area_exercises_contains:
  assumes "specific_equipment equipment"
    and "target_area_exercises e target_areas equipment n st = (Inr exercises, st')"
  shows "list_all (equipment_contains equipment) exercises"
  using assms(2) unfolding target_area_exercises_def Let_def
  by (auto simp del: fetch_body_parts.simps split: if_splits
        dest: fetch_body_parts_selected [OF assms(1)] fetch_selection_selected [OF assms(1)])

lemma focus_area_exercises_contains:
  assumes "specific_equipment equipment"
    and "focus_area_exercises e focus_area equipment st = (Inr exercises, st')"
  shows "list_all (equipment_contains equipment) exercises"
  using assms(2) unfolding focus_area_exercises_def Let_def
  by (auto simp del: fetch_body_parts.simps split: if_splits
        dest: fetch_body_parts_selected [OF assms(1)] fetch_selection_selected [OF assms(1)])

lemma body_focus_exercises_contains:
  assumes "specific_equipment equipment"
    and "body_focus_exercises e body_focus equipment n st = (Inr exercises, st')"
  shows "list_all (equipment_contains equipment) exercises"
  using assms(2) unfolding body_focus_exercises_def Let_def
  by (auto simp del: fetch_body_parts.simps split: if_splits
        dest: fetch_body_parts_selected [OF assms(1)] fetch_selection_selected [OF assms(1)])

lemma workout_type_exercises_contains:
  assumes "specific_equipment equipment"
    and "workout_type_exercises e workout_type equipment n st = (Inr exercises, st')"
  shows "list_all (equipment_contains equipment) exercises"
  using assms(2) unfolding workout_type_exercises_def Let_def
  by (auto simp del: fetch_body_parts.simps split: if_splits prod.splits
        dest: fetch_body_parts_selected [OF assms(1)] fetch_selection_selected [OF assms(1)]
              select_legs_contains [OF assms(1)])

lemma circuit_exercises_contains:
  assumes "specific_equipment equipment"
    and "fst (circuit_exercises e target_areas equipment n st) = Inr unique"
  shows "list_all (equipment_contains equipment) unique"
proof -
  from assms(2) obtain exercises st'
    where "target_area_exercises e target_areas equipment n st = (Inr exercises, st')"
      and u: "remove_duplicates_limit n exercises = Inr unique"
    unfolding circuit_exercises_def fst_bind_s_Inr by auto
  from u target_area_exercises_contains [OF assms(1) this(1)]
  show ?thesis by (rule remove_duplicates_limit_contains)
qed

lemma beginner_exercises_contains:
  assumes "specific_equipment equipment"
    and "fst (beginner_exercises e focus_area equipment st) = Inr unique"
  shows "list_all (equipment_contains equipment) unique"
proof -
  from assms(2) obtain exercises st'
    where "focus_area_exercises e focus_area equipment st = (Inr exercises, st')"
      and u: "remove_duplicates exercises = Inr unique"
    unfolding beginner_exercises_def fst_bind_s_Inr by auto
  from u focus_area_exercises_contains [OF assms(1) this(1)]
  show ?thesis by (rule remove_duplicates_contains)
qed

lemma beginner_rendered_contains:
  assumes "specific_equipment equipment"
    and "fst (beginner_rendered e focus_area equipment st) = Inr rendered"
  shows "list_all (equipment_contains equipment) rendered"
proof -
  from assms(2) obtain unique st'
    where u: "beginner_exercises e focus_area equipment st = (Inr unique, st')"
      and r: "rendered = slice_to 8 unique"
    unfolding beginner_rendered_def fst_bind_s_Inr by auto
  from u have "fst (beginner_exercises e focus_area equipment st) = Inr unique" by simp
  from beginner_exercises_contains [OF assms(1) this] r show ?thesis
    by (auto simp: list_all_iff dest: in_set_slice_toD)
qed

lemma difficulty_exercises_contains:
  assumes "specific_equipment equipment"
    and "fst (difficulty_exercises e difficulty body_focus equipment st) = Inr unique"
  shows "list_all (equipment_contains equipment) unique"
proof -
  from assms(2) obtain exercises st'
    where "body_focus_exercises e body_focus equipment (difficulty_exercise_count difficulty) st =
           (Inr exercises, st')"
      and u: "remove_duplicates_limit (difficulty_exercise_count difficulty) exercises = Inr unique"
    unfolding difficulty_exercises_def Let_def fst_bind_s_Inr by auto
  from u body_focus_exercises_contains [OF assms(1) this(1)]
  show ?thesis by (rule remove_duplicates_limit_contains)
qed

lemma hiit_exercises_contains:
  assumes "specific_equipment equipment"
    and "fst (hiit_exercises e equipment st) = Inr unique"
  shows "list_all (equipment_contains equipment) unique"
proof -
  obtain cardio_exercises st1
    where c: "make_api_request e ''/exercises/bodyPart/cardio'' None True st =
              (cardio_exercises, st1)"
    by (cases "make_api_request e ''/exercises/bodyPart/cardio'' None True st")
  from assms(2) c obtain compound st2 cardio
    where p: "fetch_body_parts e equipment 2 [''chest'', ''back'', ''upper legs'', ''shoulders'']
                [] st1 = (Inr compound, st2)"
      and s: "select_exercises equipment cardio_exercises 3 = Inr cardio"
      and u: "remove_duplicates_limit 6 (cardio @ compound) = Inr unique"
    by (auto simp: hiit_exercises_def fst_bind_s_Inr bind_e_eq_Inr
             simp del: fetch_body_parts.simps)
  from fetch_body_parts_selected [OF assms(1) p] select_exercises_contains [OF assms(1) s]
  have "list_all (equipment_contains equipment) (cardio @ compound)" by simp
  with u show ?thesis by (rule remove_duplicates_limit_contains)
qed

lemma equipment_search_found:
  "exercises \<noteq> [] \<Longrightarrow> equipment_search e equipment n exercises st = (Inr exercises, st)"
  by (simp add: equipment_search_def)

lemma equipment_search_any:
  "\<not> specific_equipment equipment \<Longrightarrow>
   equipment_search e equipment n exercises st = (Inr exercises, st)"
  by (simp add: equipment_search_def)

lemma personalized_exercises_contains:
  assumes "specific_equipment equipment"
    and "fst (workout_type_exercises e workout_type equipment
                (exercise_count_for duration_minutes fitness_level) st) = Inr exercises"
    and "exercises \<noteq> []"
    and "fst (personalized_exercises e workout_type equipment duration_minutes fitness_level st) =
         Inr unique"
  shows "list_all (equipment_contains equipment) unique"
proof -
  let ?n = "exercise_count_for duration_minutes fitness_level"
  from assms(2) obtain st1
    where w: "workout_type_exercises e workout_type equipment ?n st = (Inr exercises, st1)"
    by (cases "workout_type_exercises e workout_type equipment ?n st") simp
  from assms(4) have "remove_duplicates_limit ?n exercises = Inr unique"
    by (simp add: personalized_exercises_def Let_def w bind_s_def
          equipment_search_found [OF assms(3)])
  from this workout_type_exercises_contains [OF assms(1) w]
  show ?thesis by (rule remove_duplicates_limit_contains)
qed

lemma personalized_exercises_search:
  assumes "specific_equipment equipment"
    and "workout_type_exercises e workout_type equipment
           (exercise_count_for duration_minutes fitness_level) st = (Inr [], st1)"
  shows "fst (personalized_exercises e workout_type equipment duration_minutes fitness_level st) =
         bind_e
           (let equipment_data =
                  fst (make_api_request e
                         (''/exercises/equipment/'' @ replace_spaces (py_lower equipment))
                         None True st1)
            in if truthy equipment_data
               then bind_e (py_slice_to equipment_data
                              (exercise_count_for duration_minutes fitness_level)) py_iter
               else Inr [])
           (remove_duplicates_limit (exercise_count_for duration_minutes fitness_level))"
  using assms
  by (simp add: personalized_exercises_def equipment_search_def bind_s_def bind_e_def Let_def
        split_beta split: sum.splits)

lemma py_lower_dumbbell: "py_lower ''dumbbell'' = ''dumbbell''"
  by code_simp

lemma specific_dumbbell: "specific_equipment ''dumbbell''"
  by (simp add: specific_equipment_def py_lower_dumbbell)

lemma chest_branch:
  "workout_type_exercises e ''chest'' equipment n st =
   fetch_selection e ''/exercises/bodyPart/chest'' equipment n st"
proof -
  have "py_lower ''chest'' = ''chest''" by code_simp
  then show ?thesis by (simp add: workout_type_exercises_def)
qed

lemma select_exercises_length:
  assumes "0 \<le> n" and "select_exercises equipment data n = Inr sel"
  shows "length sel \<le> nat n"
proof (cases "truthy data")
  case False
  with assms(2) show ?thesis by (simp add: select_exercises_def)
next
  case True
  with assms(2) obtain filtered
    where "bind_e (py_slice_to filtered n) py_iter = Inr sel"
    by (auto simp: select_exercises_def bind_e_eq_Inr)
  with assms(1) show ?thesis
    by (cases filtered) (auto simp: bind_e_eq_Inr length_slice_to)
qed

lemma equipment_matches_record:
  assumes "exercise_record x"
  shows "equipment_matches equipment x = Inr (equipment_contains equipment x)"
proof -
  from assms obtain d where x: "x = JObj d" by (cases x) simp_all
  with assms have f: "field_is is_str d ''equipment''" by simp
  show ?thesis
  proof (cases "map_of d ''equipment''")
    case None
    with x show ?thesis
      by (simp add: equipment_matches_def get_lower_def equipment_contains_def py_lower_def)
  next
    case (Some v)
    with f obtain s where "v = JStr s" by (cases v) (simp_all add: field_is_def)
    with Some x show ?thesis
      by (simp add: equipment_matches_def get_lower_def equipment_contains_def)
  qed
qed

lemma equipment_filter_records:
  "list_all exercise_record xs \<Longrightarrow>
   equipment_filter equipment xs = Inr (filter (equipment_contains equipment) xs)"
  by (induction xs) (simp_all add: equipment_matches_record)

lemma select_exercises_records:
  assumes "specific_equipment equipment" and "0 \<le> n" and "list_all exercise_record records"
  shows "select_exercises equipment (JList records) n =
         Inr (take (nat n) (filter (equipment_contains equipment) records))"
proof -
  have f: "equipment_filter equipment records =
           Inr (filter (equipment_contains equipment) records)"
    using assms(3) by (rule equipment_filter_records)
  show ?thesis
  proof (cases "records = []")
    case True
    then show ?thesis by (simp add: select_exercises_def)
  next
    case False
    with assms(1,2) show ?thesis
      by (simp add: select_exercises_def f slice_to_def del: equipment_filter.simps)
  qed
qed

lemma exercise_record_has_id: "exercise_record x \<Longrightarrow> has_id x"
proof (cases x)
  case (JObj d)
  assume "exercise_record x"
  with JObj have f: "field_is is_str d ''id''" by simp
  show ?thesis
  proof (cases "map_of d ''id''")
    case None
    with JObj show ?thesis by (simp add: has_id_def exercise_key_def bind_e_def)
  next
    case (Some v)
    with f obtain s where "v = JStr s" by (cases v) (simp_all add: field_is_def)
    with Some JObj show ?thesis by (simp add: has_id_def exercise_key_def bind_e_def)
  qed
qed simp_all

lemma length_first_records: "length (first_records xs) \<le> length xs"
  using length_filter_le [of "is_first_position xs" "[0..<length xs]"]
  by (simp add: first_records_def)

lemma remove_duplicates_limit_short:
  assumes "list_all has_id xs" and "length xs \<le> nat (max 1 n)"
  shows "remove_duplicates_limit n xs = Inr (first_records xs)"
  using assms length_first_records [of xs]
  by (simp add: remove_duplicates_limit_eq)

lemma exercise_count_for_beginner:
  "duration_minutes \<le> 20 \<Longrightarrow> exercise_count_for duration_minutes ''beginner'' = 3"
proof -
  have "py_lower ''beginner'' = ''beginner''" by code_simp
  then show "duration_minutes \<le> 20 \<Longrightarrow> exercise_count_for duration_minutes ''beginner'' = 3"
    by (simp add: exercise_count_for_def)
qed

lemma replace_spaces_dumbbell: "replace_spaces (py_lower ''dumbbell'') = ''dumbbell''"
  by code_simp

lemma chest_dumbbell_selected:
  assumes "fst (make_api_request e ''/exercises/bodyPart/chest'' None True st) = JList records"
    and "list_all exercise_record records"
  shows "workout_type_exercises e ''chest'' ''dumbbell'' 3 st =
         (Inr (take 3 (filter (equipment_contains ''dumbbell'') records)),
          snd (make_api_request e ''/exercises/bodyPart/chest'' None True st))"
  using assms select_exercises_records [OF specific_dumbbell, of 3 records]
  by (simp add: chest_branch fetch_selection_def split_beta)

lemma chest_dumbbell_found:
  assumes "duration_minutes \<le> 20"
    and "fst (make_api_request e ''/exercises/bodyPart/chest'' None True st) = JList records"
    and "list_all exercise_record records"
    and "filter (equipment_contains ''dumbbell'') records \<noteq> []"
  shows "fst (personalized_exercises e ''chest'' ''dumbbell'' duration_minutes ''beginner'' st) =
         Inr (first_records (take 3 (filter (equipment_contains ''dumbbell'') records)))"
proof -
  let ?sel = "take 3 (filter (equipment_contains ''dumbbell'') records)"
  from assms(4) have ne: "?sel \<noteq> []" by simp
  from assms(3) have "list_all has_id ?sel"
    by (auto simp: list_all_iff exercise_record_has_id dest: in_set_takeD)
  then have "remove_duplicates_limit 3 ?sel = Inr (first_records ?sel)"
    by (rule remove_duplicates_limit_short) simp
  then show ?thesis
    by (simp add: personalized_exercises_def exercise_count_for_beginner [OF assms(1)]
          chest_dumbbell_selected [OF assms(2,3)] bind_s_def equipment_search_found [OF ne])
qed

lemma chest_dumbbell_search:
  assumes "duration_minutes \<le> 20"
    and "fst (make_api_request e ''/exercises/bodyPart/chest'' None True st) = JList records"
    and "list_all exercise_record records"
    and "filter (equipment_contains ''dumbbell'') records = []"
    and "fst (make_api_request e ''/exercises/equipment/dumbbell'' None True
                (snd (make_api_request e ''/exercises/bodyPart/chest'' None True st))) =
         JList found"
    and "list_all has_id found"
  shows "fst (personalized_exercises e ''chest'' ''dumbbell'' duration_minutes ''beginner'' st) =
         Inr (first_records (take 3 found))"
proof -
  from assms(6) have "list_all has_id (take 3 found)"
    by (auto simp: list_all_iff dest: in_set_takeD)
  then have r: "remove_duplicates_limit 3 (take 3 found) = Inr (first_records (take 3 found))"
    by (rule remove_duplicates_limit_short) simp
  have e: "remove_duplicates_limit 3 [] = Inr (first_records [])"
    by (simp add: remove_duplicates_limit_def first_records_def)
  from chest_dumbbell_selected [OF assms(2,3)] assms(4)
  have w: "workout_type_exercises e ''chest'' ''dumbbell''
             (exercise_count_for duration_minutes ''beginner'') st =
           (Inr [], snd (make_api_request e ''/exercises/bodyPart/chest'' None True st))"
    by (simp add: exercise_count_for_beginner [OF assms(1)])
  show ?thesis
    unfolding personalized_exercises_search [OF specific_dumbbell w]
    using r e
    by (cases "found = []")
       (simp_all add: replace_spaces_dumbbell assms(5)
          exercise_count_for_beginner [OF assms(1)] slice_to_def)
qed

text \<open>
  Claim C6, as stated: the workout for \<^verbatim>\<open>chest\<close> with the equipment \<^verbatim>\<open>dumbbell\<close> and the count
  3 (a beginner, at most 20 minutes) has only records with \<^verbatim>\<open>dumbbell\<close> in the equipment
  field. When the chest payload has no such record, \<^verbatim>\<open>create_personalized_workout\<close> takes
  the first records that the search by equipment of the upstream serves and applies no
  filter to them: here the one record of the workout is for the barbell.
\<close>

theorem chest_dumbbell_counterexample:
  "exercise_count_for 15 ''beginner'' = 3 \<and>
   fst (make_api_request loose_upstream ''/exercises/bodyPart/chest'' None True initial_state) =
     JList [bench_press] \<and>
   fst (workout_type_exercises loose_upstream ''chest'' ''dumbbell'' 3 initial_state) = Inr [] \<and>
   fst (personalized_exercises loose_upstream ''chest'' ''dumbbell'' 15 ''beginner''
          initial_state) = Inr [bench_press] \<and>
   py_get bench_press ''equipment'' (JStr '''') = Inr (JStr ''barbell'') \<and>
   \<not> list_all (equipment_contains ''dumbbell'') [bench_press]"
  by code_simp

text \<open>
  Claim C6, amended. The workout of \<^verbatim>\<open>create_personalized_workout\<close> for \<^verbatim>\<open>chest\<close> with the
  equipment \<^verbatim>\<open>dumbbell\<close>, a beginner and at most 20 minutes (the count is then 3) has at most
  3 records. Whenever the chest query selects a record, each record of the workout has
  \<^verbatim>\<open>dumbbell\<close> in its equipment field, cases ignored; when the chest payload is a list of
  exercise records of which one has \<^verbatim>\<open>dumbbell\<close> in its equipment field, the workout is the
  first 3 such records, without duplicates. When the chest payload is a list of exercise
  records none of which has it, the workout is the first 3 records of the payload of
  \<^verbatim>\<open>/exercises/equipment/dumbbell\<close>, without duplicates and as the upstream serves them.
\<close>

theorem chest_dumbbell_limit:
  "(\<forall>unique.
      duration_minutes \<le> 20 \<and>
      fst (personalized_exercises e ''chest'' ''dumbbell'' duration_minutes ''beginner'' st) =
        Inr unique \<longrightarrow>
      length unique \<le> 3) \<and>
   (\<forall>exercises unique.
      duration_minutes \<le> 20 \<and>
      fst (workout_type_exercises e ''chest'' ''dumbbell'' 3 st) = Inr exercises \<and>
      exercises \<noteq> [] \<and>
      fst (personalized_exercises e ''chest'' ''dumbbell'' duration_minutes ''beginner'' st) =
        Inr unique \<longrightarrow>
      list_all (equipment_contains ''dumbbell'') unique) \<and>
   (\<forall>records.
      duration_minutes \<le> 20 \<and>
      fst (make_api_request e ''/exercises/bodyPart/chest'' None True st) = JList records \<and>
      list_all exercise_record records \<and>
      filter (equipment_contains ''dumbbell'') records \<noteq> [] \<longrightarrow>
      fst (personalized_exercises e ''chest'' ''dumbbell'' duration_minutes ''beginner'' st) =
        Inr (first_records (take 3 (filter (equipment_contains ''dumbbell'') records)))) \<and>
   (\<forall>records found.
      duration_minutes \<le> 20 \<and>
      fst (make_api_request e ''/exercises/bodyPart/chest'' None True st) = JList records \<and>
      list_all exercise_record records \<and>
      filter (equipment_contains ''dumbbell'') records = [] \<and>
      fst (make_api_request e ''/exercises/equipment/dumbbell'' None True
             (snd (make_api_request e ''/exercises/bodyPart/chest'' None True st))) =
        JList found \<and>
      list_all has_id found \<longrightarrow>
      fst (personalized_exercises e ''chest'' ''dumbbell'' duration_minutes ''beginner'' st) =
        Inr (first_records (take 3 found)))"
proof (intro conjI allI impI)
  fix unique
  assume a: "duration_minutes \<le> 20 \<and>
      fst (personalized_exercises e ''chest'' ''dumbbell'' duration_minutes ''beginner'' st) =
        Inr unique"
  then obtain exercises where "remove_duplicates_limit 3 exercises = Inr unique"
    by (auto simp: personalized_exercises_def exercise_count_for_beginner fst_bind_s_Inr)
  from remove_duplicates_limit_length [OF this] show "length unique \<le> 3" by simp
next
  fix exercises unique
  assume a: "duration_minutes \<le> 20 \<and>
      fst (workout_type_exercises e ''chest'' ''dumbbell'' 3 st) = Inr exercises \<and>
      exercises \<noteq> [] \<and>
      fst (personalized_exercises e ''chest'' ''dumbbell'' duration_minutes ''beginner'' st) =
        Inr unique"
  then have "fst (workout_type_exercises e ''chest'' ''dumbbell''
                    (exercise_count_for duration_minutes ''beginner'') st) = Inr exercises"
    by (simp add: exercise_count_for_beginner)
  from personalized_exercises_contains [OF specific_dumbbell this] a
  show "list_all (equipment_contains ''dumbbell'') unique" by blast
next
  fix records
  assume "duration_minutes \<le> 20 \<and>
      fst (make_api_request e ''/exercises/bodyPart/chest'' None True st) = JList records \<and>
      list_all exercise_record records \<and>
      filter (equipment_contains ''dumbbell'') records \<noteq> []"
  then show "fst (personalized_exercises e ''chest'' ''dumbbell'' duration_minutes ''beginner''
                    st) =
        Inr (first_records (take 3 (filter (equipment_contains ''dumbbell'') records)))"
    using chest_dumbbell_found [of duration_minutes e st records] by blast
next
  fix records found
  assume "duration_minutes \<le> 20 \<and>
      fst (make_api_request e ''/exercises/bodyPart/chest'' None True st) = JList records \<and>
      list_all exercise_record records \<and>
      filter (equipment_contains ''dumbbell'') records = [] \<and>
      fst (make_api_request e ''/exercises/equipment/dumbbell'' None True
             (snd (make_api_request e ''/exercises/bodyPart/chest'' None True st))) =
        JList found \<and>
      list_all has_id found"
  then show "fst (personalized_exercises e ''chest'' ''dumbbell'' duration_minutes ''beginner''
                    st) = Inr (first_records (take 3 found))"
    using chest_dumbbell_search [of duration_minutes e st records found] by blast
qed

theorem chest_dumbbell_limit_witness:
  "(15::int) \<le> 20 \<and>
   fst (make_api_request gym_upstream ''/exercises/bodyPart/chest'' None True initial_state) =
     JList [push_up, dumbbell_fly, bench_press, dumbbell_press] \<and>
   list_all exercise_record [push_up, dumbbell_fly, bench_press, dumbbell_press] \<and>
   filter (equipment_contains ''dumbbell'') [push_up, dumbbell_fly, bench_press, dumbbell_press] =
     [dumbbell_fly, dumbbell_press] \<and>
   fst (personalized_exercises gym_upstream ''chest'' ''dumbbell'' 15 ''beginner''
          initial_state) = Inr [dumbbell_fly, dumbbell_press] \<and>
   list_all (equipment_contains ''dumbbell'') [dumbbell_fly, dumbbell_press] \<and>
   fst (make_api_request loose_upstream ''/exercises/bodyPart/chest'' None True initial_state) =
     JList [bench_press] \<and>
   filter (equipment_contains ''dumbbell'') [bench_press] = [] \<and>
   fst (make_api_request loose_upstream ''/exercises/equipment/dumbbell'' None True
          (snd (make_api_request loose_upstream ''/exercises/bodyPart/chest'' None True
                  initial_state))) = JList [bench_press] \<and>
   fst (personalized_exercises loose_upstream ''chest'' ''dumbbell'' 15 ''beginner''
          initial_state) = Inr [bench_press]"
proof -
  let ?records = "[push_up, dumbbell_fly, bench_press, dumbbell_press]"
  have d: "(15::int) \<le> 20" by simp
  have h1: "fst (make_api_request gym_upstream ''/exercises/bodyPart/chest'' None True
                   initial_state) = JList ?records"
    by (simp add: make_api_request_def gym_upstream_def initial_state_def Let_def)
  have h2: "list_all exercise_record ?records"
    by (simp add: push_up_def dumbbell_fly_def bench_press_def dumbbell_press_def field_is_def)
  have h3: "filter (equipment_contains ''dumbbell'') ?records = [dumbbell_fly, dumbbell_press]"
    by code_simp
  then have h4: "filter (equipment_contains ''dumbbell'') ?records \<noteq> []" by simp
  have f: "first_records (take 3 [dumbbell_fly, dumbbell_press]) =
           [dumbbell_fly, dumbbell_press]"
    by code_simp
  have w: "fst (workout_type_exercises gym_upstream ''chest'' ''dumbbell'' 3 initial_state) =
           Inr [dumbbell_fly, dumbbell_press]"
    by code_simp
  note inst = chest_dumbbell_limit [of 15 gym_upstream initial_state]
  from inst
  have "\<forall>records.
      (15::int) \<le> 20 \<and>
      fst (make_api_request gym_upstream ''/exercises/bodyPart/chest'' None True initial_state) =
        JList records \<and>
      list_all exercise_record records \<and>
      filter (equipment_contains ''dumbbell'') records \<noteq> [] \<longrightarrow>
      fst (personalized_exercises gym_upstream ''chest'' ''dumbbell'' 15 ''beginner''
             initial_state) =
        Inr (first_records (take 3 (filter (equipment_contains ''dumbbell'') records)))"
    by (rule conjunct1 [OF conjunct2 [OF conjunct2]])
  then have "(15::int) \<le> 20 \<and>
      fst (make_api_request gym_upstream ''/exercises/bodyPart/chest'' None True initial_state) =
        JList ?records \<and>
      list_all exercise_record ?records \<and>
      filter (equipment_contains ''dumbbell'') ?records \<noteq> [] \<longrightarrow>
      fst (personalized_exercises gym_upstream ''chest'' ''dumbbell'' 15 ''beginner''
             initial_state) =
        Inr (first_records (take 3 (filter (equipment_contains ''dumbbell'') ?records)))"
    by (rule spec)
  moreover from d h1 h2 h4 have "(15::int) \<le> 20 \<and>
      fst (make_api_request gym_upstream ''/exercises/bodyPart/chest'' None True initial_state) =
        JList ?records \<and>
      list_all exercise_record ?records \<and>
      filter (equipment_contains ''dumbbell'') ?records \<noteq> []"
    by (intro conjI)
  ultimately have "fst (personalized_exercises gym_upstream ''chest'' ''dumbbell'' 15
                          ''beginner'' initial_state) =
        Inr (first_records (take 3 (filter (equipment_contains ''dumbbell'') ?records)))"
    by (rule mp)
  then have r: "fst (personalized_exercises gym_upstream ''chest'' ''dumbbell'' 15 ''beginner''
                       initial_state) = Inr [dumbbell_fly, dumbbell_press]"
    by (simp only: h3 f)
  from inst
  have "\<forall>exercises unique.
      (15::int) \<le> 20 \<and>
      fst (workout_type_exercises gym_upstream ''chest'' ''dumbbell'' 3 initial_state) =
        Inr exercises \<and>
      exercises \<noteq> [] \<and>
      fst (personalized_exercises gym_upstream ''chest'' ''dumbbell'' 15 ''beginner''
             initial_state) = Inr unique \<longrightarrow>
      list_all (equipment_contains ''dumbbell'') unique"
    by (rule conjunct1 [OF conjunct2])
  then have "(15::int) \<le> 20 \<and>
      fst (workout_type_exercises gym_upstream ''chest'' ''dumbbell'' 3 initial_state) =
        Inr [dumbbell_fly, dumbbell_press] \<and>
      [dumbbell_fly, dumbbell_press] \<noteq> [] \<and>
      fst (personalized_exercises gym_upstream ''chest'' ''dumbbell'' 15 ''beginner''
             initial_state) = Inr [dumbbell_fly, dumbbell_press] \<longrightarrow>
      list_all (equipment_contains ''dumbbell'') [dumbbell_fly, dumbbell_press]"
    by (elim allE)
  moreover have "[dumbbell_fly, dumbbell_press] \<noteq> []" by simp
  with d w r have "(15::int) \<le> 20 \<and>
      fst (workout_type_exercises gym_upstream ''chest'' ''dumbbell'' 3 initial_state) =
        Inr [dumbbell_fly, dumbbell_press] \<and>
      [dumbbell_fly, dumbbell_press] \<noteq> [] \<and>
      fst (personalized_exercises gym_upstream ''chest'' ''dumbbell'' 15 ''beginner''
             initial_state) = Inr [dumbbell_fly, dumbbell_press]"
    by (intro conjI)
  ultimately have c: "list_all (equipment_contains ''dumbbell'') [dumbbell_fly, dumbbell_press]"
    by (rule mp)
  have g1: "fst (make_api_request loose_upstream ''/exercises/bodyPart/chest'' None True
                   initial_state) = JList [bench_press]"
    by (simp add: make_api_request_def loose_upstream_def initial_state_def Let_def)
  have g2: "list_all exercise_record [bench_press]"
    by (simp add: bench_press_def field_is_def)
  have g3: "filter (equipment_contains ''dumbbell'') [bench_press] = []"
    by code_simp
  have g4: "fst (make_api_request loose_upstream ''/exercises/equipment/dumbbell'' None True
          (snd (make_api_request loose_upstream ''/exercises/bodyPart/chest'' None True
                  initial_state))) = JList [bench_press]"
    by code_simp
  have g5: "list_all has_id [bench_press]"
    by (simp add: has_id_def exercise_key_def bind_e_def bench_press_def)
  have g6: "first_records (take 3 [bench_press]) = [bench_press]"
    by code_simp
  from chest_dumbbell_limit [of 15 loose_upstream initial_state]
  have "\<forall>records found.
      (15::int) \<le> 20 \<and>
      fst (make_api_request loose_upstream ''/exercises/bodyPart/chest'' None True
             initial_state) = JList records \<and>
      list_all exercise_record records \<and>
      filter (equipment_contains ''dumbbell'') records = [] \<and>
      fst (make_api_request loose_upstream ''/exercises/equipment/dumbbell'' None True
             (snd (make_api_request loose_upstream ''/exercises/bodyPart/chest'' None True
                     initial_state))) = JList found \<and>
      list_all has_id found \<longrightarrow>
      fst (personalized_exercises loose_upstream ''chest'' ''dumbbell'' 15 ''beginner''
             initial_state) = Inr (first_records (take 3 found))"
    by (rule conjunct2 [OF conjunct2 [OF conjunct2]])
  then have "(15::int) \<le> 20 \<and>
      fst (make_api_request loose_upstream ''/exercises/bodyPart/chest'' None True
             initial_state) = JList [bench_press] \<and>
      list_all exercise_record [bench_press] \<and>
      filter (equipment_contains ''dumbbell'') [bench_press] = [] \<and>
      fst (make_api_request loose_upstream ''/exercises/equipment/dumbbell'' None True
             (snd (make_api_request loose_upstream ''/exercises/bodyPart/chest'' None True
                     initial_state))) = JList [bench_press] \<and>
      list_all has_id [bench_press] \<longrightarrow>
      fst (personalized_exercises loose_upstream ''chest'' ''dumbbell'' 15 ''beginner''
             initial_state) = Inr (first_records (take 3 [bench_press]))"
    by (elim allE)
  moreover from d g1 g2 g3 g4 g5 have "(15::int) \<le> 20 \<and>
      fst (make_api_request loose_upstream ''/exercises/bodyPart/chest'' None True
             initial_state) = JList [bench_press] \<and>
      list_all exercise_record [bench_press] \<and>
      filter (equipment_contains ''dumbbell'') [bench_press] = [] \<and>
      fst (make_api_request loose_upstream ''/exercises/equipment/dumbbell'' None True
             (snd (make_api_request loose_upstream ''/exercises/bodyPart/chest'' None True
                     initial_state))) = JList [bench_press] \<and>
      list_all has_id [bench_press]"
    by (intro conjI)
  ultimately have "fst (personalized_exercises loose_upstream ''chest'' ''dumbbell'' 15
                          ''beginner'' initial_state) =
                   Inr (first_records (take 3 [bench_press]))"
    by (rule mp)
  then have s: "fst (personalized_exercises loose_upstream ''chest'' ''dumbbell'' 15 ''beginner''
                       initial_state) = Inr [bench_press]"
    by (simp only: g6)
  from d h1 h2 h3 r c g1 g3 g4 s show ?thesis by (intro conjI)
qed

text \<open>
  Claim C1, as stated: every record that a builder renders has the equipment asked for.
  When the body-part queries of \<^verbatim>\<open>create_personalized_workout\<close> select nothing, it renders
  what the search by equipment of the upstream serves, and applies no filter to it.
\<close>

theorem equipment_search_counterexample:
  "specific_equipment ''dumbbell'' \<and>
   fst (personalized_exercises loose_upstream ''chest'' ''dumbbell'' 15 ''beginner''
          initial_state) = Inr [bench_press] \<and>
   \<not> equipment_contains ''dumbbell'' bench_press \<and>
   fst (create_personalized_workout loose_upstream ''chest'' ''dumbbell'' 15 ''beginner''
          ''balanced'' initial_state) =
     format_workout_plan [bench_press] ''chest'' ''dumbbell'' 15 \<and>
   returns (format_workout_plan [bench_press] ''chest'' ''dumbbell'' 15)"
  by code_simp

text \<open>
  Claim C1, amended. When the equipment is specific, every record of \<^verbatim>\<open>unique_exercises\<close>
  has an equipment field that contains it, cases ignored, in \<^verbatim>\<open>create_circuit_training\<close>,
  \<^verbatim>\<open>get_beginner_workout_plan\<close>, \<^verbatim>\<open>get_workout_by_difficulty\<close> and \<^verbatim>\<open>create_hiit_workout\<close>, and in
  \<^verbatim>\<open>create_personalized_workout\<close> whenever its body-part queries select a record; when they
  select none, its \<^verbatim>\<open>unique_exercises\<close> are the first records of the payload of the search by
  equipment, without duplicates and as the upstream serves them. When the equipment is
  \<^verbatim>\<open>any\<close> or \<^verbatim>\<open>all\<close>, each payload is passed on as it is, cut to the count, and no search
  by equipment is made.
\<close>

theorem builders_filter_equipment:
  "(specific_equipment equipment \<longrightarrow>
      (\<forall>unique. fst (circuit_exercises e target_areas equipment exercises_per_round st) =
                  Inr unique \<longrightarrow>
                list_all (equipment_contains equipment) unique) \<and>
      (\<forall>unique. fst (beginner_exercises e focus_area equipment st) = Inr unique \<longrightarrow>
                list_all (equipment_contains equipment) unique) \<and>
      (\<forall>rendered. fst (beginner_rendered e focus_area equipment st) = Inr rendered \<longrightarrow>
                  list_all (equipment_contains equipment) rendered) \<and>
      (\<forall>unique. fst (difficulty_exercises e difficulty body_focus equipment st) = Inr unique \<longrightarrow>
                list_all (equipment_contains equipment) unique) \<and>
      (\<forall>unique. fst (hiit_exercises e equipment st) = Inr unique \<longrightarrow>
                list_all (equipment_contains equipment) unique) \<and>
      (\<forall>exercises unique.
         fst (workout_type_exercises e workout_type equipment
                (exercise_count_for duration_minutes fitness_level) st) = Inr exercises \<and>
         exercises \<noteq> [] \<and>
         fst (personalized_exercises e workout_type equipment duration_minutes fitness_level st) =
           Inr unique \<longrightarrow>
         list_all (equipment_contains equipment) unique) \<and>
      (\<forall>st1.
         workout_type_exercises e workout_type equipment
           (exercise_count_for duration_minutes fitness_level) st = (Inr [], st1) \<longrightarrow>
         fst (personalized_exercises e workout_type equipment duration_minutes fitness_level st) =
           bind_e
             (let equipment_data =
                    fst (make_api_request e
                           (''/exercises/equipment/'' @ replace_spaces (py_lower equipment))
                           None True st1)
              in if truthy equipment_data
                 then bind_e (py_slice_to equipment_data
                                (exercise_count_for duration_minutes fitness_level)) py_iter
                 else Inr [])
             (remove_duplicates_limit (exercise_count_for duration_minutes fitness_level)))) \<and>
   (\<not> specific_equipment equipment \<longrightarrow>
      select_exercises equipment part_data n =
        (if truthy part_data then bind_e (py_slice_to part_data n) py_iter else Inr []) \<and>
      select_legs equipment upper_legs lower_legs n =
        bind_e (if truthy upper_legs then py_iter upper_legs else Inr []) (\<lambda>upper.
        bind_e (if truthy lower_legs then py_iter lower_legs else Inr []) (\<lambda>lower.
        Inr (slice_to n (upper @ lower)))) \<and>
      equipment_search e equipment n exercises' st = (Inr exercises', st))"
proof (intro conjI impI allI)
  fix unique
  assume "specific_equipment equipment"
    and "fst (circuit_exercises e target_areas equipment exercises_per_round st) = Inr unique"
  then show "list_all (equipment_contains equipment) unique"
    by (rule circuit_exercises_contains)
next
  fix unique
  assume "specific_equipment equipment"
    and "fst (beginner_exercises e focus_area equipment st) = Inr unique"
  then show "list_all (equipment_contains equipment) unique"
    by (rule beginner_exercises_contains)
next
  fix rendered
  assume "specific_equipment equipment"
    and "fst (beginner_rendered e focus_area equipment st) = Inr rendered"
  then show "list_all (equipment_contains equipment) rendered"
    by (rule beginner_rendered_contains)
next
  fix unique
  assume "specific_equipment equipment"
    and "fst (difficulty_exercises e difficulty body_focus equipment st) = Inr unique"
  then show "list_all (equipment_contains equipment) unique"
    by (rule difficulty_exercises_contains)
next
  fix unique
  assume "specific_equipment equipment"
    and "fst (hiit_exercises e equipment st) = Inr unique"
  then show "list_all (equipment_contains equipment) unique"
    by (rule hiit_exercises_contains)
next
  fix exercises unique
  assume s: "specific_equipment equipment"
    and "fst (workout_type_exercises e workout_type equipment
                (exercise_count_for duration_minutes fitness_level) st) = Inr exercises \<and>
         exercises \<noteq> [] \<and>
         fst (personalized_exercises e workout_type equipment duration_minutes fitness_level st) =
           Inr unique"
  then have "fst (workout_type_exercises e workout_type equipment
                (exercise_count_for duration_minutes fitness_level) st) = Inr exercises"
    and "exercises \<noteq> []"
    and "fst (personalized_exercises e workout_type equipment duration_minutes fitness_level st) =
           Inr unique"
    by simp_all
  with s show "list_all (equipment_contains equipment) unique"
    by (rule personalized_exercises_contains)
next
  fix st1
  assume "specific_equipment equipment"
    and "workout_type_exercises e workout_type equipment
           (exercise_count_for duration_minutes fitness_level) st = (Inr [], st1)"
  then show
    "fst (personalized_exercises e workout_type equipment duration_minutes fitness_level st) =
       bind_e
         (let equipment_data =
                fst (make_api_request e
                       (''/exercises/equipment/'' @ replace_spaces (py_lower equipment))
                       None True st1)
          in if truthy equipment_data
             then bind_e (py_slice_to equipment_data
                            (exercise_count_for duration_minutes fitness_level)) py_iter
             else Inr [])
         (remove_duplicates_limit (exercise_count_for duration_minutes fitness_level))"
    by (rule personalized_exercises_search)
next
  assume "\<not> specific_equipment equipment"
  then show "select_exercises equipment part_data n =
        (if truthy part_data then bind_e (py_slice_to part_data n) py_iter else Inr [])"
    by (rule select_exercises_unfiltered)
next
  assume "\<not> specific_equipment equipment"
  then show "select_legs equipment upper_legs lower_legs n =
        bind_e (if truthy upper_legs then py_iter upper_legs else Inr []) (\<lambda>upper.
        bind_e (if truthy lower_legs then py_iter lower_legs else Inr []) (\<lambda>lower.
        Inr (slice_to n (upper @ lower))))"
    by (rule select_legs_unfiltered)
next
  assume "\<not> specific_equipment equipment"
  then show "equipment_search e equipment n exercises' st = (Inr exercises', st)"
    by (rule equipment_search_any)
qed


theorem builders_filter_equipment_witness:
  "specific_equipment ''Dumbbell'' \<and>
   fst (hiit_exercises gym_upstream ''Dumbbell'' initial_state) =
     Inr [dumbbell_fly, dumbbell_press] \<and>
   fst (workout_type_exercises gym_upstream ''Chest day'' ''Dumbbell''
          (exercise_count_for 30 ''intermediate'') initial_state) =
     Inr [dumbbell_fly, dumbbell_press] \<and>
   fst (personalized_exercises gym_upstream ''Chest day'' ''Dumbbell'' 30 ''intermediate''
          initial_state) = Inr [dumbbell_fly, dumbbell_press] \<and>
   list_all (equipment_contains ''Dumbbell'') [dumbbell_fly, dumbbell_press] \<and>
   \<not> specific_equipment ''ANY'' \<and>
   select_exercises ''ANY'' (JList [push_up, dumbbell_fly, bench_press]) 2 =
     Inr [push_up, dumbbell_fly]"
proof -
  have h: "specific_equipment ''Dumbbell''" by code_simp
  have v: "fst (hiit_exercises gym_upstream ''Dumbbell'' initial_state) =
           Inr [dumbbell_fly, dumbbell_press]"
    by code_simp
  have w: "fst (workout_type_exercises gym_upstream ''Chest day'' ''Dumbbell''
                  (exercise_count_for 30 ''intermediate'') initial_state) =
           Inr [dumbbell_fly, dumbbell_press]"
    by code_simp
  have p: "fst (personalized_exercises gym_upstream ''Chest day'' ''Dumbbell'' 30
                  ''intermediate'' initial_state) = Inr [dumbbell_fly, dumbbell_press]"
    by code_simp
  have a: "\<not> specific_equipment ''ANY''" by code_simp
  have t: "truthy (JList [push_up, dumbbell_fly, bench_press])" by simp
  have c: "list_all (equipment_contains ''Dumbbell'') [dumbbell_fly, dumbbell_press]"
    using builders_filter_equipment
      [of "''Dumbbell''" gym_upstream _ _ initial_state _ _ _ "''Chest day''" 30 "''intermediate''"]
      h w p
    by blast
  have s: "select_exercises ''ANY'' (JList [push_up, dumbbell_fly, bench_press]) 2 =
           bind_e (py_slice_to (JList [push_up, dumbbell_fly, bench_press]) 2) py_iter"
    using builders_filter_equipment
      [of "''ANY''" _ _ _ _ _ _ _ _ _ _ "JList [push_up, dumbbell_fly, bench_press]" 2] a t
    by simp
  have s': "select_exercises ''ANY'' (JList [push_up, dumbbell_fly, bench_press]) 2 =
            Inr [push_up, dumbbell_fly]"
    unfolding s by (simp add: slice_to_def)
  from h v w p c a s' show ?thesis by (intro conjI)
qed

section \<open>The bound of the loops\<close>

lemma exercise_count_for_ge: "3 \<le> exercise_count_for duration_minutes fitness_level"
  by (simp add: exercise_count_for_def Let_def)

lemma difficulty_exercise_count_ge: "5 \<le> difficulty_exercise_count difficulty"
  by (simp add: difficulty_exercise_count_def)

lemma circuit_exercises_length:
  assumes "fst (circuit_exercises e target_areas equipment n st) = Inr unique"
  shows "length unique \<le> nat (max 1 n)"
proof -
  from assms obtain exercises where "remove_duplicates_limit n exercises = Inr unique"
    by (auto simp: circuit_exercises_def fst_bind_s_Inr)
  then show ?thesis by (rule remove_duplicates_limit_length)
qed

lemma personalized_exercises_length:
  assumes "fst (personalized_exercises e workout_type equipment duration_minutes fitness_level st) =
           Inr unique"
  shows "length unique \<le> nat (exercise_count_for duration_minutes fitness_level)"
proof -
  from assms obtain exercises
    where "remove_duplicates_limit (exercise_count_for duration_minutes fitness_level) exercises =
           Inr unique"
    by (auto simp: personalized_exercises_def Let_def fst_bind_s_Inr)
  from remove_duplicates_limit_length [OF this]
    exercise_count_for_ge [of duration_minutes fitness_level]
  show ?thesis by simp
qed

lemma difficulty_exercises_length:
  assumes "fst (difficulty_exercises e difficulty body_focus equipment st) = Inr unique"
  shows "length unique \<le> nat (difficulty_exercise_count difficulty)"
proof -
  from assms obtain exercises
    where "remove_duplicates_limit (difficulty_exercise_count difficulty) exercises = Inr unique"
    by (auto simp: difficulty_exercises_def Let_def fst_bind_s_Inr)
  from remove_duplicates_limit_length [OF this] difficulty_exercise_count_ge [of difficulty]
  show ?thesis by simp
qed

lemma hiit_exercises_length:
  assumes "fst (hiit_exercises e equipment st) = Inr unique"
  shows "length unique \<le> 6"
proof -
  from assms obtain exercises where "remove_duplicates_limit 6 exercises = Inr unique"
    by (auto simp: hiit_exercises_def fst_bind_s_Inr bind_e_eq_Inr split_beta
             simp del: fetch_body_parts.simps)
  from remove_duplicates_limit_length [OF this] show ?thesis by simp
qed

lemma beginner_exercises_all:
  assumes "focus_area_exercises e focus_area equipment st = (Inr exercises, st')"
    and "list_all has_id exercises"
  shows "fst (beginner_exercises e focus_area equipment st) = Inr (first_records exercises)"
  using assms by (simp add: beginner_exercises_def bind_s_def remove_duplicates_eq)

text \<open>
  Claim C10. A record without the key \<^verbatim>\<open>id\<close> has the identifier \<^verbatim>\<open>None\<close>, so that at most one
  such record is left by either loop, however many occur in the input. The loop of
  \<^verbatim>\<open>get_beginner_workout_plan\<close> (\<open>remove_duplicates\<close>) has no bound: it keeps a record for each
  identifier of the input, so that the builder keeps all first occurrences of what it
  fetched. The loop of the other builders (\<open>remove_duplicates_limit\<close>) keeps the first
  \<open>exercise_count\<close> records of that list and stops (one record when the count is below one,
  since the test follows the first \<^verbatim>\<open>append\<close>), so that these builders keep at most their
  count of records.
\<close>

theorem missing_id_and_truncation:
  "(\<forall>x. lacks_id x \<longrightarrow> exercise_key x = Inr JNull) \<and>
   (list_all has_id exercises \<longrightarrow>
      remove_duplicates exercises = Inr (first_records exercises) \<and>
      (\<forall>x\<in>set exercises. \<exists>y\<in>set (first_records exercises). exercise_key y = exercise_key x) \<and>
      length (filter lacks_id (first_records exercises)) \<le> 1 \<and>
      remove_duplicates_limit exercise_count exercises =
        Inr (take (nat (max 1 exercise_count)) (first_records exercises)) \<and>
      length (filter lacks_id (take (nat (max 1 exercise_count)) (first_records exercises))) \<le> 1) \<and>
   (\<forall>st'. focus_area_exercises e focus_area equipment st = (Inr exercises, st') \<and>
          list_all has_id exercises \<longrightarrow>
          fst (beginner_exercises e focus_area equipment st) = Inr (first_records exercises)) \<and>
   (\<forall>unique. fst (personalized_exercises e workout_type equipment duration_minutes fitness_level
                    st) = Inr unique \<longrightarrow>
             length unique \<le> nat (exercise_count_for duration_minutes fitness_level)) \<and>
   (\<forall>unique. fst (circuit_exercises e target_areas equipment exercises_per_round st) =
               Inr unique \<longrightarrow>
             length unique \<le> nat (max 1 exercises_per_round)) \<and>
   (\<forall>unique. fst (difficulty_exercises e difficulty body_focus equipment st) = Inr unique \<longrightarrow>
             length unique \<le> nat (difficulty_exercise_count difficulty)) \<and>
   (\<forall>unique. fst (hiit_exercises e equipment st) = Inr unique \<longrightarrow> length unique \<le> 6)"
proof (intro conjI allI impI ballI)
  fix x
  assume "lacks_id x"
  then show "exercise_key x = Inr JNull" by (rule lacks_id_key)
next
  assume "list_all has_id exercises"
  then show "remove_duplicates exercises = Inr (first_records exercises)"
    by (rule remove_duplicates_eq)
next
  fix x
  assume "list_all has_id exercises" and "x \<in> set exercises"
  then show "\<exists>y\<in>set (first_records exercises). exercise_key y = exercise_key x"
    by (rule first_records_cover)
next
  assume "list_all has_id exercises"
  then have "distinct (map exercise_key (first_records exercises))"
    by (rule first_records_distinct)
  then have "length (filter lacks_id (first_records exercises)) \<le> Suc 0"
    by (rule filter_same_key_le_1) (rule lacks_id_key)
  then show "length (filter lacks_id (first_records exercises)) \<le> 1" by simp
next
  assume "list_all has_id exercises"
  then show "remove_duplicates_limit exercise_count exercises =
        Inr (take (nat (max 1 exercise_count)) (first_records exercises))"
    by (rule remove_duplicates_limit_eq)
next
  assume "list_all has_id exercises"
  then have "distinct (map exercise_key (first_records exercises))"
    by (rule first_records_distinct)
  then have "distinct (map exercise_key
               (take (nat (max 1 exercise_count)) (first_records exercises)))"
    by (simp add: take_map [symmetric])
  then have "length (filter lacks_id
               (take (nat (max 1 exercise_count)) (first_records exercises))) \<le> Suc 0"
    by (rule filter_same_key_le_1) (rule lacks_id_key)
  then show "length (filter lacks_id
               (take (nat (max 1 exercise_count)) (first_records exercises))) \<le> 1"
    by simp
next
  fix st'
  assume "focus_area_exercises e focus_area equipment st = (Inr exercises, st') \<and>
          list_all has_id exercises"
  then show "fst (beginner_exercises e focus_area equipment st) = Inr (first_records exercises)"
    using beginner_exercises_all by blast
next
  fix unique
  assume "fst (personalized_exercises e workout_type equipment duration_minutes fitness_level
                 st) = Inr unique"
  then show "length unique \<le> nat (exercise_count_for duration_minutes fitness_level)"
    by (rule personalized_exercises_length)
next
  fix unique
  assume "fst (circuit_exercises e target_areas equipment exercises_per_round st) = Inr unique"
  then show "length unique \<le> nat (max 1 exercises_per_round)"
    by (rule circuit_exercises_length)
next
  fix unique
  assume "fst (difficulty_exercises e difficulty body_focus equipment st) = Inr unique"
  then show "length unique \<le> nat (difficulty_exercise_count difficulty)"
    by (rule difficulty_exercises_length)
next
  fix unique
  assume "fst (hiit_exercises e equipment st) = Inr unique"
  then show "length unique \<le> 6"
    by (rule hiit_exercises_length)
qed

theorem missing_id_and_truncation_witness:
  "lacks_id plank \<and> lacks_id side_plank \<and>
   list_all has_id [plank, crunch, side_plank, push_up] \<and>
   remove_duplicates [plank, crunch, side_plank, push_up] = Inr [plank, crunch, push_up] \<and>
   remove_duplicates_limit 2 [plank, crunch, side_plank, push_up] = Inr [plank, crunch] \<and>
   fst (beginner_exercises core_upstream ''core strength'' ''body weight'' initial_state) =
     Inr [plank, crunch, push_up] \<and>
   fst (circuit_exercises core_upstream ''core'' ''body weight'' 2 initial_state) =
     Inr [plank, crunch]"
proof -
  have l: "lacks_id plank" "lacks_id side_plank"
    by (simp_all add: plank_def side_plank_def)
  have h: "list_all has_id [plank, crunch, side_plank, push_up]"
    by (simp add: has_id_def exercise_key_def bind_e_def plank_def crunch_def side_plank_def
          push_up_def)
  have r: "first_records [plank, crunch, side_plank, push_up] = [plank, crunch, push_up]"
    by code_simp
  have "fst (focus_area_exercises core_upstream ''core strength'' ''body weight''
               initial_state) = Inr [plank, crunch, side_plank, push_up]"
    by code_simp
  then have f: "focus_area_exercises core_upstream ''core strength'' ''body weight''
                  initial_state =
           (Inr [plank, crunch, side_plank, push_up],
            snd (focus_area_exercises core_upstream ''core strength'' ''body weight''
                   initial_state))"
    by (simp add: prod_eq_iff)
  have c: "fst (circuit_exercises core_upstream ''core'' ''body weight'' 2 initial_state) =
           Inr [plank, crunch]"
    by code_simp
  note inst = missing_id_and_truncation
    [of "[plank, crunch, side_plank, push_up]" 2 core_upstream "''core strength''"
        "''body weight''" initial_state]
  from inst h have a: "remove_duplicates [plank, crunch, side_plank, push_up] =
      Inr (first_records [plank, crunch, side_plank, push_up])"
    and b: "remove_duplicates_limit 2 [plank, crunch, side_plank, push_up] =
      Inr (take (nat (max 1 2)) (first_records [plank, crunch, side_plank, push_up]))"
    by blast+
  from inst h f have d: "fst (beginner_exercises core_upstream ''core strength'' ''body weight''
      initial_state) = Inr (first_records [plank, crunch, side_plank, push_up])"
    by blast
  from l h a b c d show ?thesis
    unfolding r by simp
qed

end
